theory Spec2Isabelle
  imports Complex_Main "HOL-Library.Char_ord" "HOL-Library.List_Lexorder"
    "HOL-Library.Multiset"
begin

section \<open>Closed value sets (validations.ts, schema.ts)\<close>

datatype city = Chandigarh | Mohali | Zirakpur | Panchkula | City_Other
datatype propertyType = Apartment | Villa | Plot | Office | Retail
datatype bhk = Bhk_1 | Bhk_2 | Bhk_3 | Bhk_4 | Studio
datatype purpose = Buy | Rent
datatype timeline = T_0_3m | T_3_6m | T_gt_6m | Exploring
datatype source = Website | Referral | Walk_in | Call | Source_Other
datatype status = New | Qualified | Contacted | Visited | Negotiation | Converted | Dropped

text \<open>The members are JavaScript strings; these are the spellings of the \<open>z.enum\<close> lists.\<close>

definition cityEnum :: "(string \<times> city) list" where
  "cityEnum = [(''Chandigarh'', Chandigarh), (''Mohali'', Mohali), (''Zirakpur'', Zirakpur),
               (''Panchkula'', Panchkula), (''Other'', City_Other)]"

definition propertyTypeEnum :: "(string \<times> propertyType) list" where
  "propertyTypeEnum = [(''Apartment'', Apartment), (''Villa'', Villa), (''Plot'', Plot),
                       (''Office'', Office), (''Retail'', Retail)]"

definition bhkEnum :: "(string \<times> bhk) list" where
  "bhkEnum = [(''1'', Bhk_1), (''2'', Bhk_2), (''3'', Bhk_3), (''4'', Bhk_4), (''Studio'', Studio)]"

definition purposeEnum :: "(string \<times> purpose) list" where
  "purposeEnum = [(''Buy'', Buy), (''Rent'', Rent)]"

definition timelineEnum :: "(string \<times> timeline) list" where
  "timelineEnum = [(''0-3m'', T_0_3m), (''3-6m'', T_3_6m), (''>6m'', T_gt_6m),
                   (''Exploring'', Exploring)]"

definition sourceEnum :: "(string \<times> source) list" where
  "sourceEnum = [(''Website'', Website), (''Referral'', Referral), (''Walk-in'', Walk_in),
                 (''Call'', Call), (''Other'', Source_Other)]"

definition statusEnum :: "(string \<times> status) list" where
  "statusEnum = [(''New'', New), (''Qualified'', Qualified), (''Contacted'', Contacted),
                 (''Visited'', Visited), (''Negotiation'', Negotiation),
                 (''Converted'', Converted), (''Dropped'', Dropped)]"

text \<open>\<open>spelling e v\<close> is the string a member is written as (first match in the list).\<close>

fun spelling :: "(string \<times> 'a) list \<Rightarrow> 'a \<Rightarrow> string" where
  "spelling [] v = []"
| "spelling ((s, w) # e) v = (if w = v then s else spelling e v)"

section \<open>JavaScript values\<close>

text \<open>
  The values the handlers compare and store as JSON. An array or a \<open>Date\<close> is an object: it
  carries the address it was allocated at, and \<open>===\<close> on two objects compares the addresses,
  never the contents. Numbers are modelled as rationals (finite values only). Strings are
  lists of 8-bit characters, so lengths agree with JavaScript's on ASCII text.
\<close>

datatype jsval = JUndefined | JNull | JStr string | JNum rat | JArr nat "string list"
  | JDate nat string

fun strict_eq :: "jsval \<Rightarrow> jsval \<Rightarrow> bool" where
  "strict_eq JUndefined JUndefined = True"
| "strict_eq JNull JNull = True"
| "strict_eq (JStr s) (JStr t) = (s = t)"
| "strict_eq (JNum x) (JNum y) = (x = y)"
| "strict_eq (JArr a xs) (JArr b ys) = (a = b)"
| "strict_eq (JDate a s) (JDate b t) = (a = b)"
| "strict_eq _ _ = False"

text \<open>An object with its keys in insertion order; \<open>obj[key]\<close> of a missing key is undefined.\<close>

type_synonym jsobj = "(string \<times> jsval) list"

definition js_get :: "jsobj \<Rightarrow> string \<Rightarrow> jsval" where
  "js_get obj key = (case map_of obj key of None \<Rightarrow> JUndefined | Some v \<Rightarrow> v)"

definition Object_keys :: "jsobj \<Rightarrow> string list" where
  "Object_keys obj = map fst obj"

text \<open>
  A \<open>Date\<close> is represented by its \<open>toISOString()\<close> rendering, which determines it; two such
  renderings compare as strings the way the instants compare in time.
\<close>

type_synonym date = string

section \<open>Tables (schema.ts)\<close>

record buyer =
  buyer_id :: string
  fullName :: string
  email :: "string option"
  phone :: string
  city :: city
  propertyType :: propertyType
  bhk :: "bhk option"
  purpose :: purpose
  budgetMin :: "rat option"
  budgetMax :: "rat option"
  timeline :: timeline
  source :: source
  status :: status
  buyer_notes :: "string option"
  tags :: "string list option"
  ownerId :: string
  createdAt :: date
  updatedAt :: date

text \<open>
  The \<open>diff\<close> column is JSON. Updates and single creation store a record of
  \<open>key \<mapsto> {from, to}\<close>; the import stores \<open>{from: {}, to: rowData}\<close>.
\<close>

datatype diff = Changes "(string \<times> jsval \<times> jsval) list" | FromTo jsobj jsobj

record history =
  history_id :: string
  buyerId :: string
  changedBy :: string
  changedAt :: date
  diff :: diff

record db =
  buyers :: "buyer list"
  buyerHistory :: "history list"

section \<open>Environment of a request\<close>

text \<open>
  What a handler reads from outside its own code: the format checks of the validation
  library, the clock, the identifier generators, and the store's verdict on each statement.
  \<open>new_Date k\<close> and \<open>uuidv4 k\<close> are the results of the \<open>k\<close>-th call in the request;
  \<open>store_ok k\<close> says whether the \<open>k\<close>-th statement sent to the store is executed (otherwise it
  throws), and \<open>defaultRandom k\<close>, \<open>defaultNow k\<close> are the column defaults it fills in there.
\<close>

record env =
  is_email :: "string \<Rightarrow> bool"
  is_uuid :: "string \<Rightarrow> bool"
  is_datetime :: "string \<Rightarrow> bool"
  Date_now :: nat
  new_Date :: "nat \<Rightarrow> date"
  uuidv4 :: "nat \<Rightarrow> string"
  store_ok :: "nat \<Rightarrow> bool"
  defaultRandom :: "nat \<Rightarrow> string"
  defaultNow :: "nat \<Rightarrow> date"

record request =
  ip :: "string option"
  x_forwarded_for :: "string option"

text \<open>The session: no user, or a user whose \<open>id\<close> may be unset.\<close>

datatype session = Anonymous | User "string option"

text \<open>\<open>session?.user?.id\<close> when it is truthy.\<close>

fun session_user_id :: "session \<Rightarrow> string option" where
  "session_user_id Anonymous = None"
| "session_user_id (User None) = None"
| "session_user_id (User (Some uid)) = (if uid = [] then None else Some uid)"

section \<open>Rate limiting (lib/rateLimit)\<close>

record rate_limit =
  success :: bool
  limit :: int
  remaining :: int
  reset :: nat

datatype RateLimitKey = CREATE_BUYER | UPDATE_BUYER

fun RATE_LIMITS :: "RateLimitKey \<Rightarrow> string" where
  "RATE_LIMITS CREATE_BUYER = ''10 per minute''"
| "RATE_LIMITS UPDATE_BUYER = ''20 per minute''"

definition limits :: "(string \<times> int \<times> string) list" where
  "limits = [(''10 per minute'', 10, ''1m''), (''20 per minute'', 20, ''1m'')]"

definition rateLimiter :: "env \<Rightarrow> request \<Rightarrow> int \<Rightarrow> string \<Rightarrow> rate_limit" where
  "rateLimiter e request lmt window =
     (let forwarded = (case x_forwarded_for request of None \<Rightarrow> [] | Some a \<Rightarrow> a);
          address = (case ip request of
                       None \<Rightarrow> forwarded
                     | Some a \<Rightarrow> if a = [] then forwarded else a);
          key = ''rate-limit:'' @ address
      in \<lparr>success = True, limit = lmt, remaining = lmt - 1, reset = Date_now e + 60000\<rparr>)"

text \<open>A key missing from \<open>limits\<close> makes the destructuring throw: \<open>None\<close>.\<close>

definition check :: "env \<Rightarrow> request \<Rightarrow> RateLimitKey \<Rightarrow> rate_limit option" where
  "check e request limitType =
     (case map_of limits (RATE_LIMITS limitType) of
        None \<Rightarrow> None
      | Some (lmt, window) \<Rightarrow> Some (rateLimiter e request lmt window))"

section \<open>Validation rules (lib/validations.ts)\<close>

datatype issue = Issue "string list" string

text \<open>
  A candidate record, as the schema's input type has it: the closed value sets are already
  members, optional keys may be absent. JSON of another shape is refused by the library
  before any rule below is looked at.
\<close>

record buyer_input =
  in_fullName :: string
  in_email :: "string option"
  in_phone :: string
  in_city :: city
  in_propertyType :: propertyType
  in_bhk :: "bhk option"
  in_purpose :: purpose
  in_budgetMin :: "rat option"
  in_budgetMax :: "rat option"
  in_timeline :: timeline
  in_source :: source
  in_status :: "status option"
  in_notes :: "string option"
  in_tags :: "string list option"

record update_input = buyer_input +
  in_id :: string
  in_updatedAt :: string

definition is_digit :: "char \<Rightarrow> bool" where
  "is_digit c = (CHR ''0'' \<le> c \<and> c \<le> CHR ''9'')"

text \<open>The regular expression \<open>/^\d{10,15}$/\<close>.\<close>

definition phone_regex :: "string \<Rightarrow> bool" where
  "phone_regex s = (10 \<le> length s \<and> length s \<le> 15 \<and> list_all is_digit s)"

definition is_int :: "rat \<Rightarrow> bool" where
  "is_int x = (of_int \<lfloor>x\<rfloor> = x)"

definition budget_issues :: "string \<Rightarrow> rat option \<Rightarrow> issue list" where
  "budget_issues key b =
     (case b of
        None \<Rightarrow> []
      | Some x \<Rightarrow>
          (if is_int x then [] else [Issue [key] ''Budget must be a whole number'']) @
          (if 0 < x then [] else [Issue [key] ''Budget must be positive'']))"

text \<open>The checks of the object's fields, in the order of the schema's keys.\<close>

definition field_issues :: "env \<Rightarrow> 'a buyer_input_scheme \<Rightarrow> issue list" where
  "field_issues e data =
     (if length (in_fullName data) < 2
      then [Issue [''fullName''] ''Full name must be at least 2 characters''] else []) @
     (if 80 < length (in_fullName data)
      then [Issue [''fullName''] ''Full name must be at most 80 characters''] else []) @
     (case in_email data of
        None \<Rightarrow> []
      | Some s \<Rightarrow> if is_email e s \<or> s = [] then []
                  else [Issue [''email''] ''Invalid email format'']) @
     (if phone_regex (in_phone data) then []
      else [Issue [''phone''] ''Phone must be 10-15 digits'']) @
     budget_issues ''budgetMin'' (in_budgetMin data) @
     budget_issues ''budgetMax'' (in_budgetMax data) @
     (case in_notes data of
        None \<Rightarrow> []
      | Some s \<Rightarrow> if length s \<le> 1000 \<or> s = [] then []
                  else [Issue [''notes''] ''Notes must be at most 1000 characters''])"

text \<open>The two refinements; a number is truthy when it is not zero.\<close>

definition bhk_refinement :: "'a buyer_input_scheme \<Rightarrow> issue list" where
  "bhk_refinement data =
     (if in_propertyType data \<in> {Apartment, Villa} \<and> in_bhk data = None
      then [Issue [''bhk''] ''BHK is required for Apartment and Villa properties'']
      else [])"

definition budget_refinement :: "'a buyer_input_scheme \<Rightarrow> issue list" where
  "budget_refinement data =
     (case (in_budgetMin data, in_budgetMax data) of
        (Some lo, Some hi) \<Rightarrow>
          if lo \<noteq> 0 \<and> hi \<noteq> 0 \<and> hi < lo
          then [Issue [''budgetMax'']
                  ''Maximum budget must be greater than or equal to minimum budget'']
          else []
      | _ \<Rightarrow> [])"

text \<open>The parsed value: the input with the defaults of \<open>status\<close> and \<open>tags\<close> filled in.\<close>

definition with_defaults :: "'a buyer_input_scheme \<Rightarrow> 'a buyer_input_scheme" where
  "with_defaults data =
     data\<lparr>in_status := Some (case in_status data of None \<Rightarrow> New | Some s \<Rightarrow> s),
          in_tags := Some (case in_tags data of None \<Rightarrow> [] | Some ts \<Rightarrow> ts)\<rparr>"

definition buyerSchema_issues :: "env \<Rightarrow> buyer_input \<Rightarrow> issue list" where
  "buyerSchema_issues e data =
     field_issues e data @ bhk_refinement data @ budget_refinement data"

definition buyerSchema_parse :: "env \<Rightarrow> buyer_input \<Rightarrow> issue list + buyer_input" where
  "buyerSchema_parse e data =
     (if buyerSchema_issues e data = [] then Inr (with_defaults data)
      else Inl (buyerSchema_issues e data))"

definition createBuyerSchema_parse :: "env \<Rightarrow> buyer_input \<Rightarrow> issue list + buyer_input" where
  "createBuyerSchema_parse = buyerSchema_parse"

definition updateBuyerSchema_issues :: "env \<Rightarrow> update_input \<Rightarrow> issue list" where
  "updateBuyerSchema_issues e data =
     (if is_uuid e (in_id data) then [] else [Issue [''id''] ''Invalid uuid'']) @
     field_issues e data @
     (if is_datetime e (in_updatedAt data) then []
      else [Issue [''updatedAt''] ''Invalid datetime'']) @
     bhk_refinement data @ budget_refinement data"

definition updateBuyerSchema_parse :: "env \<Rightarrow> update_input \<Rightarrow> issue list + update_input" where
  "updateBuyerSchema_parse e data =
     (if updateBuyerSchema_issues e data = [] then Inr (with_defaults data)
      else Inl (updateBuyerSchema_issues e data))"

section \<open>Responses\<close>

datatype error =
    Unauthorized
  | TooManyRequests rate_limit
  | ValidationFailed "issue list"
  | InvalidParameters "string list"
  | NotFound
  | Forbidden
  | Conflict
  | InternalError
  | NoFileProvided
  | NotCsv
  | CsvParsingFailed
  | CsvEmpty
  | CsvTooLarge
  | ImportFailed

fun status_code :: "error \<Rightarrow> nat" where
  "status_code Unauthorized = 401"
| "status_code (TooManyRequests r) = 429"
| "status_code (ValidationFailed is) = 400"
| "status_code (InvalidParameters ps) = 400"
| "status_code NotFound = 404"
| "status_code Forbidden = 403"
| "status_code Conflict = 409"
| "status_code InternalError = 500"
| "status_code NoFileProvided = 400"
| "status_code NotCsv = 400"
| "status_code CsvParsingFailed = 400"
| "status_code CsvEmpty = 400"
| "status_code CsvTooLarge = 400"
| "status_code ImportFailed = 500"

section \<open>Records as JavaScript objects\<close>

fun entry :: "string \<Rightarrow> jsval option \<Rightarrow> jsobj" where
  "entry key None = []"
| "entry key (Some v) = [(key, v)]"

fun nullable :: "jsval option \<Rightarrow> jsval" where
  "nullable None = JNull"
| "nullable (Some v) = v"

text \<open>
  The value \<open>updateBuyerSchema.parse\<close> returns: the keys of the schema in its order, an
  optional key only when it has a value; its \<open>tags\<close> array lives at address \<open>a\<close>.
\<close>

definition update_obj :: "nat \<Rightarrow> update_input \<Rightarrow> jsobj" where
  "update_obj a data =
     [(''id'', JStr (in_id data)), (''fullName'', JStr (in_fullName data))] @
     entry ''email'' (map_option JStr (in_email data)) @
     [(''phone'', JStr (in_phone data)),
      (''city'', JStr (spelling cityEnum (in_city data))),
      (''propertyType'', JStr (spelling propertyTypeEnum (in_propertyType data)))] @
     entry ''bhk'' (map_option (\<lambda>b. JStr (spelling bhkEnum b)) (in_bhk data)) @
     [(''purpose'', JStr (spelling purposeEnum (in_purpose data)))] @
     entry ''budgetMin'' (map_option JNum (in_budgetMin data)) @
     entry ''budgetMax'' (map_option JNum (in_budgetMax data)) @
     [(''timeline'', JStr (spelling timelineEnum (in_timeline data))),
      (''source'', JStr (spelling sourceEnum (in_source data)))] @
     entry ''status'' (map_option (\<lambda>s. JStr (spelling statusEnum s)) (in_status data)) @
     entry ''notes'' (map_option JStr (in_notes data)) @
     entry ''tags'' (map_option (JArr a) (in_tags data)) @
     [(''updatedAt'', JStr (in_updatedAt data))]"

text \<open>
  A row as a select returns it: every column, \<open>null\<close> for a missing value; its \<open>tags\<close> array
  and its two \<open>Date\<close>s are fresh objects at the addresses \<open>a\<close>, \<open>a + 1\<close>, \<open>a + 2\<close>.
\<close>

definition buyer_obj :: "nat \<Rightarrow> buyer \<Rightarrow> jsobj" where
  "buyer_obj a b =
     [(''id'', JStr (buyer_id b)),
      (''fullName'', JStr (fullName b)),
      (''email'', nullable (map_option JStr (email b))),
      (''phone'', JStr (phone b)),
      (''city'', JStr (spelling cityEnum (city b))),
      (''propertyType'', JStr (spelling propertyTypeEnum (propertyType b))),
      (''bhk'', nullable (map_option (\<lambda>k. JStr (spelling bhkEnum k)) (bhk b))),
      (''purpose'', JStr (spelling purposeEnum (purpose b))),
      (''budgetMin'', nullable (map_option JNum (budgetMin b))),
      (''budgetMax'', nullable (map_option JNum (budgetMax b))),
      (''timeline'', JStr (spelling timelineEnum (timeline b))),
      (''source'', JStr (spelling sourceEnum (source b))),
      (''status'', JStr (spelling statusEnum (status b))),
      (''notes'', nullable (map_option JStr (buyer_notes b))),
      (''tags'', nullable (map_option (JArr a) (tags b))),
      (''ownerId'', JStr (ownerId b)),
      (''createdAt'', JDate (a + 1) (createdAt b)),
      (''updatedAt'', JDate (a + 2) (updatedAt b))]"

section \<open>Statements on the store\<close>

text \<open>\<open>select().from(buyers).where(eq(buyers.id, x))\<close>, first row.\<close>

definition select_buyer :: "db \<Rightarrow> string \<Rightarrow> buyer option" where
  "select_buyer d x = find (\<lambda>b. buyer_id b = x) (buyers d)"

text \<open>
  The values of an insert or of a \<open>set\<close>: a key that is absent keeps the column (update) or
  takes its default (insert).
\<close>

definition set_values :: "'a buyer_input_scheme \<Rightarrow> buyer \<Rightarrow> buyer" where
  "set_values data b =
     b\<lparr>fullName := in_fullName data,
       email := (case in_email data of None \<Rightarrow> email b | Some s \<Rightarrow> Some s),
       phone := in_phone data,
       city := in_city data,
       propertyType := in_propertyType data,
       bhk := (case in_bhk data of None \<Rightarrow> bhk b | Some k \<Rightarrow> Some k),
       purpose := in_purpose data,
       budgetMin := (case in_budgetMin data of None \<Rightarrow> budgetMin b | Some x \<Rightarrow> Some x),
       budgetMax := (case in_budgetMax data of None \<Rightarrow> budgetMax b | Some x \<Rightarrow> Some x),
       timeline := in_timeline data,
       source := in_source data,
       status := (case in_status data of None \<Rightarrow> status b | Some s \<Rightarrow> s),
       buyer_notes := (case in_notes data of None \<Rightarrow> buyer_notes b | Some s \<Rightarrow> Some s),
       tags := (case in_tags data of None \<Rightarrow> tags b | Some ts \<Rightarrow> Some ts)\<rparr>"

text \<open>A row of column defaults, for an insert to fill: identifier and timestamps given.\<close>

definition default_row :: "string \<Rightarrow> string \<Rightarrow> date \<Rightarrow> date \<Rightarrow> buyer" where
  "default_row i owner created updated =
     \<lparr>buyer_id = i, fullName = [], email = None, phone = [], city = Chandigarh,
      propertyType = Apartment, bhk = None, purpose = Buy, budgetMin = None,
      budgetMax = None, timeline = T_0_3m, source = Website, status = New,
      buyer_notes = None, tags = Some [], ownerId = owner, createdAt = created,
      updatedAt = updated\<rparr>"

text \<open>
  \<open>delete(buyers).where(p)\<close>: the foreign key of \<open>buyer_history.buyer_id\<close> is declared
  \<open>onDelete: "cascade"\<close>, so the history rows of every deleted buyer go with it.
\<close>

definition delete_buyers :: "(buyer \<Rightarrow> bool) \<Rightarrow> db \<Rightarrow> db" where
  "delete_buyers p d =
     d\<lparr>buyers := filter (\<lambda>b. \<not> p b) (buyers d),
       buyerHistory :=
         filter (\<lambda>h. \<not> list_ex (\<lambda>b. p b \<and> buyer_id b = buyerId h) (buyers d))
           (buyerHistory d)\<rparr>"

section \<open>Update and delete (api/buyers/[id]/route.ts)\<close>

text \<open>The field-level diff: the keys of the validated data whose values are not \<open>===\<close>.\<close>

definition compute_diff :: "jsobj \<Rightarrow> jsobj \<Rightarrow> (string \<times> jsval \<times> jsval) list" where
  "compute_diff currentBuyer validatedData =
     [(key, js_get currentBuyer key, js_get validatedData key).
        key \<leftarrow> Object_keys validatedData,
        key \<noteq> ''id'' \<and> key \<noteq> ''updatedAt'' \<and>
        \<not> strict_eq (js_get currentBuyer key) (js_get validatedData key)]"

text \<open>
  The objects of the request are numbered as they are allocated: the validated data's
  \<open>tags\<close> array is object 0, the fetched row's array and dates are objects 1 to 3.
  Statement 0 is the select, 1 the update, 2 the insert of the history entry.
\<close>

definition PUT :: "env \<Rightarrow> session \<Rightarrow> request \<Rightarrow> string \<Rightarrow> update_input \<Rightarrow> db
    \<Rightarrow> (error + buyer) \<times> db" where
  "PUT e session req params_id body d =
     (case session_user_id session of
        None \<Rightarrow> (Inl Unauthorized, d)
      | Some uid \<Rightarrow>
     (case check e req UPDATE_BUYER of
        None \<Rightarrow> (Inl InternalError, d)
      | Some rateLimit \<Rightarrow>
     if \<not> success rateLimit then (Inl (TooManyRequests rateLimit), d)
     else
     (case updateBuyerSchema_parse e body of
        Inl issues \<Rightarrow> (Inl (ValidationFailed issues), d)
      | Inr validatedData \<Rightarrow>
     if \<not> store_ok e 0 then (Inl InternalError, d)
     else
     (case select_buyer d params_id of
        None \<Rightarrow> (Inl NotFound, d)
      | Some currentBuyer \<Rightarrow>
     if ownerId currentBuyer \<noteq> uid then (Inl Forbidden, d)
     else if updatedAt currentBuyer \<noteq> in_updatedAt validatedData then (Inl Conflict, d)
     else
       let changes = compute_diff (buyer_obj 1 currentBuyer) (update_obj 0 validatedData);
           upd = (\<lambda>b. (set_values validatedData b)
                         \<lparr>buyer_id := in_id validatedData, updatedAt := new_Date e 0\<rparr>)
       in
       if \<not> store_ok e 1 then (Inl InternalError, d)
       else
         let d1 = d\<lparr>buyers := map (\<lambda>b. if buyer_id b = params_id then upd b else b)
                                 (buyers d)\<rparr>;
             updatedBuyer = upd currentBuyer
         in
         if 0 < length changes then
           if \<not> store_ok e 2 then (Inl InternalError, d1)
           else (Inr updatedBuyer,
                 d1\<lparr>buyerHistory := buyerHistory d1 @
                      [\<lparr>history_id = defaultRandom e 2, buyerId = params_id,
                        changedBy = uid, changedAt = defaultNow e 2,
                        diff = Changes changes\<rparr>]\<rparr>)
         else (Inr updatedBuyer, d1)))))"

text \<open>Statement 0 is the select, 1 the delete.\<close>

definition DELETE :: "env \<Rightarrow> session \<Rightarrow> string \<Rightarrow> db \<Rightarrow> (error + unit) \<times> db" where
  "DELETE e session params_id d =
     (case session_user_id session of
        None \<Rightarrow> (Inl Unauthorized, d)
      | Some uid \<Rightarrow>
     if \<not> store_ok e 0 then (Inl InternalError, d)
     else
     (case select_buyer d params_id of
        None \<Rightarrow> (Inl NotFound, d)
      | Some currentBuyer \<Rightarrow>
     if ownerId currentBuyer \<noteq> uid then (Inl Forbidden, d)
     else if \<not> store_ok e 1 then (Inl InternalError, d)
     else (Inr (), delete_buyers (\<lambda>b. buyer_id b = params_id) d)))"

section \<open>Single creation (api/buyers/route.ts, POST)\<close>

text \<open>Statement 0 inserts the buyer, statement 1 its history entry.\<close>

definition POST_create :: "env \<Rightarrow> session \<Rightarrow> request \<Rightarrow> buyer_input \<Rightarrow> db
    \<Rightarrow> (error + buyer) \<times> db" where
  "POST_create e session req body d =
     (case session_user_id session of
        None \<Rightarrow> (Inl Unauthorized, d)
      | Some uid \<Rightarrow>
     (case check e req CREATE_BUYER of
        None \<Rightarrow> (Inl InternalError, d)
      | Some rateLimit \<Rightarrow>
     if \<not> success rateLimit then (Inl (TooManyRequests rateLimit), d)
     else
     (case createBuyerSchema_parse e body of
        Inl issues \<Rightarrow> (Inl (ValidationFailed issues), d)
      | Inr validatedData \<Rightarrow>
     if \<not> store_ok e 0 then (Inl InternalError, d)
     else
       let newBuyer = set_values validatedData
                        (default_row (defaultRandom e 0) uid (defaultNow e 0) (defaultNow e 0));
           d1 = d\<lparr>buyers := buyers d @ [newBuyer]\<rparr>
       in
       if \<not> store_ok e 1 then (Inl InternalError, d1)
       else (Inr newBuyer,
             d1\<lparr>buyerHistory := buyerHistory d1 @
                  [\<lparr>history_id = defaultRandom e 1, buyerId = buyer_id newBuyer,
                    changedBy = uid, changedAt = defaultNow e 1,
                    diff = Changes [(''created'', JNull, JStr ''New buyer created'')]\<rparr>]\<rparr>))))"

section \<open>Listing and export (api/buyers/route.ts GET, api/buyers/export/route.ts)\<close>

datatype sortBy = By_fullName | By_createdAt | By_updatedAt
datatype sortOrder = Asc | Desc

definition sortByEnum :: "(string \<times> sortBy) list" where
  "sortByEnum = [(''fullName'', By_fullName), (''createdAt'', By_createdAt),
                 (''updatedAt'', By_updatedAt)]"

definition sortOrderEnum :: "(string \<times> sortOrder) list" where
  "sortOrderEnum = [(''asc'', Asc), (''desc'', Desc)]"

text \<open>
  \<open>parsedParams\<close>: the query string's entries, with \<open>page\<close> and \<open>limit\<close> as \<open>parseInt\<close> or the
  defaults 1 and 10 left them (\<open>None\<close> is \<open>NaN\<close>).
\<close>

record search_params =
  p_query :: "string option"
  p_city :: "string option"
  p_propertyType :: "string option"
  p_status :: "string option"
  p_timeline :: "string option"
  p_page :: "int option"
  p_limit :: "int option"
  p_sortBy :: "string option"
  p_sortOrder :: "string option"

record search =
  q_query :: "string option"
  q_city :: "city option"
  q_propertyType :: "propertyType option"
  q_status :: "status option"
  q_timeline :: "timeline option"
  q_page :: int
  q_limit :: int
  q_sortBy :: sortBy
  q_sortOrder :: sortOrder

text \<open>An optional member of a closed set: absent, or one of the spellings.\<close>

definition enum_issue :: "string \<Rightarrow> (string \<times> 'a) list \<Rightarrow> string option \<Rightarrow> string list" where
  "enum_issue key members v =
     (case v of
        None \<Rightarrow> []
      | Some s \<Rightarrow> (case map_of members s of None \<Rightarrow> [key] | Some m \<Rightarrow> []))"

definition enum_value :: "(string \<times> 'a) list \<Rightarrow> string option \<Rightarrow> 'a option" where
  "enum_value members v = (case v of None \<Rightarrow> None | Some s \<Rightarrow> map_of members s)"

text \<open>The paths of the parameters \<open>searchSchema\<close> refuses.\<close>

definition searchSchema_issues :: "search_params \<Rightarrow> string list" where
  "searchSchema_issues p =
     enum_issue ''city'' cityEnum (p_city p) @
     enum_issue ''propertyType'' propertyTypeEnum (p_propertyType p) @
     enum_issue ''status'' statusEnum (p_status p) @
     enum_issue ''timeline'' timelineEnum (p_timeline p) @
     (case p_page p of
        None \<Rightarrow> [''page'']
      | Some n \<Rightarrow> if 0 < n then [] else [''page'']) @
     (case p_limit p of
        None \<Rightarrow> [''limit'']
      | Some n \<Rightarrow> (if 0 < n then [] else [''limit'']) @ (if n \<le> 50 then [] else [''limit''])) @
     enum_issue ''sortBy'' sortByEnum (p_sortBy p) @
     enum_issue ''sortOrder'' sortOrderEnum (p_sortOrder p)"

definition searchSchema_parse :: "search_params \<Rightarrow> string list + search" where
  "searchSchema_parse p =
     (case (p_page p, p_limit p) of
        (Some pg, Some lm) \<Rightarrow>
          if searchSchema_issues p = [] then
            Inr \<lparr>q_query = p_query p,
                 q_city = enum_value cityEnum (p_city p),
                 q_propertyType = enum_value propertyTypeEnum (p_propertyType p),
                 q_status = enum_value statusEnum (p_status p),
                 q_timeline = enum_value timelineEnum (p_timeline p),
                 q_page = pg,
                 q_limit = lm,
                 q_sortBy = (case enum_value sortByEnum (p_sortBy p) of
                               None \<Rightarrow> By_updatedAt | Some f \<Rightarrow> f),
                 q_sortOrder = (case enum_value sortOrderEnum (p_sortOrder p) of
                                  None \<Rightarrow> Desc | Some f \<Rightarrow> f)\<rparr>
          else Inl (searchSchema_issues p)
      | _ \<Rightarrow> Inl (searchSchema_issues p))"

text \<open>
  The store's \<open>LIKE\<close>: \<open>%\<close> stands for any run of characters, \<open>_\<close> for any one character, a
  backslash takes the next character literally. \<open>ILIKE\<close> compares without regard to case
  (here: of the ASCII letters).
\<close>

fun like :: "string \<Rightarrow> string \<Rightarrow> bool" where
  "like s [] = (s = [])"
| "like [] (p # ps) = (p = CHR ''%'' \<and> like [] ps)"
| "like (c # cs) (p # ps) =
     (if p = CHR ''%'' then like (c # cs) ps \<or> like cs (p # ps)
      else if p = CHR ''_'' then like cs ps
      else if p = CHR 0x5C then (case ps of [] \<Rightarrow> False | q # qs \<Rightarrow> c = q \<and> like cs qs)
      else c = p \<and> like cs ps)"

definition to_lower :: "char \<Rightarrow> char" where
  "to_lower c =
     (case map_of (zip ''ABCDEFGHIJKLMNOPQRSTUVWXYZ'' ''abcdefghijklmnopqrstuvwxyz'') c of
        None \<Rightarrow> c
      | Some l \<Rightarrow> l)"

definition toLowerCase :: "string \<Rightarrow> string" where
  "toLowerCase s = map to_lower s"

definition ilike :: "string \<Rightarrow> string \<Rightarrow> bool" where
  "ilike s pattern = like (toLowerCase s) (toLowerCase pattern)"

text \<open>
  The free-text condition on name, email and phone; a \<open>NULL\<close> email matches nothing.
\<close>

definition matches_query :: "string \<Rightarrow> buyer \<Rightarrow> bool" where
  "matches_query q b =
     (let pattern = ''%'' @ q @ ''%'' in
        ilike (fullName b) pattern \<or>
        (case email b of None \<Rightarrow> False | Some em \<Rightarrow> ilike em pattern) \<or>
        ilike (phone b) pattern)"

text \<open>The conjunction of the conditions the list handler pushes; none of them gives all rows.\<close>

definition list_where :: "search \<Rightarrow> buyer \<Rightarrow> bool" where
  "list_where v b =
     ((case q_query v of None \<Rightarrow> True | Some q \<Rightarrow> q = [] \<or> matches_query q b) \<and>
      (case q_city v of None \<Rightarrow> True | Some c \<Rightarrow> city b = c) \<and>
      (case q_propertyType v of None \<Rightarrow> True | Some t \<Rightarrow> propertyType b = t) \<and>
      (case q_status v of None \<Rightarrow> True | Some s \<Rightarrow> status b = s) \<and>
      (case q_timeline v of None \<Rightarrow> True | Some t \<Rightarrow> timeline b = t))"

fun sort_column :: "sortBy \<Rightarrow> buyer \<Rightarrow> string" where
  "sort_column By_fullName b = fullName b"
| "sort_column By_createdAt b = createdAt b"
| "sort_column By_updatedAt b = updatedAt b"

text \<open>
  \<open>ORDER BY\<close>: the store leaves the order of rows with equal keys open; the model keeps them
  in table order when ascending and reverses the ascending result when descending.
\<close>

fun order_by :: "sortBy \<Rightarrow> sortOrder \<Rightarrow> buyer list \<Rightarrow> buyer list" where
  "order_by f Asc rows = sort_key (sort_column f) rows"
| "order_by f Desc rows = rev (sort_key (sort_column f) rows)"

record pagination =
  pg_page :: int
  pg_limit :: int
  pg_total :: nat
  pg_pages :: int

record listing =
  data :: "buyer list"
  pagination :: pagination

text \<open>Statement 0 counts, statement 1 selects the page.\<close>

definition GET_list :: "env \<Rightarrow> session \<Rightarrow> search_params \<Rightarrow> db \<Rightarrow> error + listing" where
  "GET_list e session parsedParams d =
     (case session_user_id session of
        None \<Rightarrow> Inl Unauthorized
      | Some uid \<Rightarrow>
     (case searchSchema_parse parsedParams of
        Inl ps \<Rightarrow> Inl (InvalidParameters ps)
      | Inr validatedParams \<Rightarrow>
     if \<not> store_ok e 0 then Inl InternalError
     else
       let total = length (filter (list_where validatedParams) (buyers d)) in
       if \<not> store_ok e 1 then Inl InternalError
       else
         let results =
               take (nat (q_limit validatedParams))
                 (drop (nat ((q_page validatedParams - 1) * q_limit validatedParams))
                    (order_by (q_sortBy validatedParams) (q_sortOrder validatedParams)
                       (filter (list_where validatedParams) (buyers d))))
         in Inr \<lparr>data = results,
                 pagination =
                   \<lparr>pg_page = q_page validatedParams,
                    pg_limit = q_limit validatedParams,
                    pg_total = total,
                    pg_pages = \<lceil>(of_nat total :: rat) / of_int (q_limit validatedParams)\<rceil>\<rparr>\<rparr>))"

text \<open>
  The export selects the rows it renders as CSV: those of the session's user, narrowed by the
  free-text condition when \<open>query\<close> is given. A session user without an id makes the
  statement throw. The rendering of the rows as text is not part of the model.
\<close>

definition export_where :: "string \<Rightarrow> string option \<Rightarrow> buyer \<Rightarrow> bool" where
  "export_where uid query b =
     (ownerId b = uid \<and>
      (case query of None \<Rightarrow> True | Some q \<Rightarrow> q = [] \<or> matches_query q b))"

definition GET_export :: "env \<Rightarrow> session \<Rightarrow> string option \<Rightarrow> db \<Rightarrow> error + buyer list" where
  "GET_export e session query d =
     (case session of
        Anonymous \<Rightarrow> Inl Unauthorized
      | User None \<Rightarrow> Inl InternalError
      | User (Some uid) \<Rightarrow>
          if \<not> store_ok e 0 then Inl InternalError
          else Inr (filter (export_where uid query) (buyers d)))"

section \<open>CSV import (api/buyers/import/route.ts)\<close>

text \<open>
  The model starts from what the CSV library and the clean-up pass hand to the row loop: one
  \<open>cleanRow\<close> per data line, holding only the known columns. After the library's cell
  transform a text cell is a string, a budget cell a number, the tags cell an array; an
  empty or missing cell is undefined.
\<close>

record csv_row =
  row_fullName :: "string option"
  row_email :: "string option"
  row_phone :: "string option"
  row_city :: "string option"
  row_propertyType :: "string option"
  row_bhk :: "string option"
  row_purpose :: "string option"
  row_budgetMin :: "rat option"
  row_budgetMax :: "rat option"
  row_timeline :: "string option"
  row_source :: "string option"
  row_status :: "string option"
  row_notes :: "string option"
  row_tags :: "string list option"

record transformed_row =
  t_fullName :: string
  t_email :: string
  t_phone :: string
  t_city :: string
  t_propertyType :: string
  t_bhk :: "string option"
  t_purpose :: string
  t_budgetMin :: "rat option"
  t_budgetMax :: "rat option"
  t_timeline :: string
  t_source :: string
  t_status :: string
  t_notes :: string
  t_tags :: "string list"

text \<open>String helpers of the language (white space: the ASCII blanks).\<close>

definition is_space :: "char \<Rightarrow> bool" where
  "is_space c = (c \<in> set [CHR 0x20, CHR 0x09, CHR 0x0A, CHR 0x0B, CHR 0x0C, CHR 0x0D])"

definition js_trim :: "string \<Rightarrow> string" where
  "js_trim s = rev (dropWhile is_space (rev (dropWhile is_space s)))"

fun split_on :: "char \<Rightarrow> string \<Rightarrow> string list" where
  "split_on sep [] = [[]]"
| "split_on sep (c # cs) =
     (if c = sep then [] # split_on sep cs
      else (case split_on sep cs of [] \<Rightarrow> [[c]] | w # ws \<Rightarrow> (c # w) # ws))"

fun join_with :: "char \<Rightarrow> string list \<Rightarrow> string" where
  "join_with sep [] = []"
| "join_with sep [w] = w"
| "join_with sep (w # ws) = w @ sep # join_with sep ws"

text \<open>\<open>String(v || '').trim()\<close> and \<open>v ? String(v).trim() : undefined\<close> on a text cell.\<close>

definition trimmed_or_empty :: "string option \<Rightarrow> string" where
  "trimmed_or_empty v = js_trim (case v of None \<Rightarrow> [] | Some s \<Rightarrow> s)"

definition trimmed_if_truthy :: "string option \<Rightarrow> string option" where
  "trimmed_if_truthy v =
     (case v of None \<Rightarrow> None | Some s \<Rightarrow> if s = [] then None else Some (js_trim s))"

text \<open>\<open>v ? Number(v) : undefined\<close> on a budget cell.\<close>

definition number_if_truthy :: "rat option \<Rightarrow> rat option" where
  "number_if_truthy v =
     (case v of None \<Rightarrow> None | Some x \<Rightarrow> if x = 0 then None else Some x)"

definition transform_row :: "csv_row \<Rightarrow> transformed_row" where
  "transform_row row =
     \<lparr>t_fullName = trimmed_or_empty (row_fullName row),
      t_email = (case trimmed_if_truthy (row_email row) of
                   None \<Rightarrow> [] | Some s \<Rightarrow> toLowerCase s),
      t_phone = trimmed_or_empty (row_phone row),
      t_city = trimmed_or_empty (row_city row),
      t_propertyType = trimmed_or_empty (row_propertyType row),
      t_bhk = trimmed_if_truthy (row_bhk row),
      t_purpose = trimmed_or_empty (row_purpose row),
      t_budgetMin = number_if_truthy (row_budgetMin row),
      t_budgetMax = number_if_truthy (row_budgetMax row),
      t_timeline = trimmed_or_empty (row_timeline row),
      t_source = trimmed_or_empty (row_source row),
      t_status = (case trimmed_if_truthy (row_status row) of
                    None \<Rightarrow> ''New'' | Some s \<Rightarrow> s),
      t_notes = (case trimmed_if_truthy (row_notes row) of None \<Rightarrow> [] | Some s \<Rightarrow> s),
      t_tags = (case row_tags row of
                  None \<Rightarrow> []
                | Some ts \<Rightarrow>
                    filter (\<lambda>tag. tag \<noteq> [])
                      (map js_trim (split_on CHR '','' (join_with CHR '','' ts))))\<rparr>"

text \<open>
  \<open>csvBuyerSchema.parse\<close> on a transformed row: \<open>None\<close> when it throws. The email union takes
  a well-formed address as it is and turns the empty string into an absent value; so does
  the \<open>bhk\<close> union with a member and the empty string.
\<close>

definition csv_bhk :: "string option \<Rightarrow> bhk option option" where
  "csv_bhk v =
     (case v of
        None \<Rightarrow> Some None
      | Some s \<Rightarrow>
          (case map_of bhkEnum s of
             Some k \<Rightarrow> Some (Some k)
           | None \<Rightarrow> if s = [] then Some None else None))"

definition csvBuyerSchema_parse :: "env \<Rightarrow> transformed_row \<Rightarrow> buyer_input option" where
  "csvBuyerSchema_parse e t =
     (case map_of cityEnum (t_city t) of None \<Rightarrow> None | Some c \<Rightarrow>
     (case map_of propertyTypeEnum (t_propertyType t) of None \<Rightarrow> None | Some pt \<Rightarrow>
     (case csv_bhk (t_bhk t) of None \<Rightarrow> None | Some k \<Rightarrow>
     (case map_of purposeEnum (t_purpose t) of None \<Rightarrow> None | Some pu \<Rightarrow>
     (case map_of timelineEnum (t_timeline t) of None \<Rightarrow> None | Some tm \<Rightarrow>
     (case map_of sourceEnum (t_source t) of None \<Rightarrow> None | Some so \<Rightarrow>
     (case map_of statusEnum (t_status t) of None \<Rightarrow> None | Some st \<Rightarrow>
       if 2 \<le> length (t_fullName t) \<and> length (t_fullName t) \<le> 80 \<and>
          (is_email e (t_email t) \<or> t_email t = []) \<and>
          phone_regex (t_phone t) \<and>
          length (t_notes t) \<le> 1000
       then
         let data = \<lparr>in_fullName = t_fullName t,
                     in_email = (if is_email e (t_email t) then Some (t_email t) else None),
                     in_phone = t_phone t,
                     in_city = c,
                     in_propertyType = pt,
                     in_bhk = k,
                     in_purpose = pu,
                     in_budgetMin = t_budgetMin t,
                     in_budgetMax = t_budgetMax t,
                     in_timeline = tm,
                     in_source = so,
                     in_status = Some st,
                     in_notes = Some (t_notes t),
                     in_tags = Some (t_tags t)\<rparr>
         in if bhk_refinement data = [] \<and> budget_refinement data = [] then Some data
            else None
       else None)))))))"

text \<open>
  \<open>findFirst\<close> for a buyer of the same owner with the row's phone, or with its email when the
  row has one.
\<close>

definition existing_buyer :: "db \<Rightarrow> string \<Rightarrow> buyer_input \<Rightarrow> buyer option" where
  "existing_buyer d uid validatedRow =
     find (\<lambda>b. (phone b = in_phone validatedRow \<and> ownerId b = uid) \<or>
                (case in_email validatedRow of
                   None \<Rightarrow> False
                 | Some em \<Rightarrow> em \<noteq> [] \<and> email b = Some em \<and> ownerId b = uid))
       (buyers d)"

datatype row_failure =
    DuplicatePhone nat
  | DuplicateEmail nat
  | SchemaError
  | AlreadyExists
  | StoreError

record import_error =
  row :: nat
  message :: row_failure
  row_data :: csv_row

text \<open>
  The variables of the row loop, and how many identifiers, dates and statements the request
  has used so far.
\<close>

record import_state =
  validRows :: "buyer list"
  errors :: "import_error list"
  seenPhones :: "string set"
  seenEmails :: "string set"
  uuids :: nat
  dates :: nat
  stmts :: nat

definition push_error :: "nat \<Rightarrow> row_failure \<Rightarrow> csv_row \<Rightarrow> import_state \<Rightarrow> import_state" where
  "push_error rowNumber m r st =
     st\<lparr>errors := errors st @ [\<lparr>row = rowNumber, message = m, row_data = r\<rparr>]\<rparr>"

text \<open>
  One turn of the loop: the body of the \<open>try\<close>, each \<open>throw\<close> ending in the \<open>catch\<close> that
  records the row. The two sets are only ever read.
\<close>

definition import_row :: "env \<Rightarrow> string \<Rightarrow> db \<Rightarrow> nat \<Rightarrow> csv_row \<Rightarrow> import_state \<Rightarrow> import_state" where
  "import_row e uid d rowNumber r st =
     (let transformedRow = transform_row r in
      if t_phone transformedRow \<noteq> [] \<and> t_phone transformedRow \<in> seenPhones st
      then push_error rowNumber (DuplicatePhone rowNumber) r st
      else if t_email transformedRow \<noteq> [] \<and> t_email transformedRow \<in> seenEmails st
      then push_error rowNumber (DuplicateEmail rowNumber) r st
      else
        (case csvBuyerSchema_parse e transformedRow of
           None \<Rightarrow> push_error rowNumber SchemaError r st
         | Some validatedRow \<Rightarrow>
             if \<not> store_ok e (stmts st)
             then push_error rowNumber StoreError r (st\<lparr>stmts := stmts st + 1\<rparr>)
             else
               (case existing_buyer d uid validatedRow of
                  Some b \<Rightarrow> push_error rowNumber AlreadyExists r (st\<lparr>stmts := stmts st + 1\<rparr>)
                | None \<Rightarrow>
                    st\<lparr>validRows := validRows st @
                         [set_values validatedRow
                            (default_row (uuidv4 e (uuids st)) uid
                               (new_Date e (dates st)) (new_Date e (dates st + 1)))],
                       uuids := uuids st + 1,
                       dates := dates st + 2,
                       stmts := stmts st + 1\<rparr>)))"

text \<open>The loop over \<open>rows\<close> from index \<open>i\<close>; the row number counts the header line.\<close>

fun import_rows :: "env \<Rightarrow> string \<Rightarrow> db \<Rightarrow> nat \<Rightarrow> csv_row list \<Rightarrow> import_state \<Rightarrow> import_state" where
  "import_rows e uid d i [] st = st"
| "import_rows e uid d i (r # rows) st =
     import_rows e uid d (i + 1) rows (import_row e uid d (i + 2) r st)"

text \<open>
  \<open>rowData\<close>: the row without its id, as the JSON column keeps it (absent values are left
  out, dates are written as strings, addresses play no role).
\<close>

definition rowData :: "buyer \<Rightarrow> jsobj" where
  "rowData b =
     [(''fullName'', JStr (fullName b))] @
     entry ''email'' (map_option JStr (email b)) @
     [(''phone'', JStr (phone b)),
      (''city'', JStr (spelling cityEnum (city b))),
      (''propertyType'', JStr (spelling propertyTypeEnum (propertyType b)))] @
     entry ''bhk'' (map_option (\<lambda>k. JStr (spelling bhkEnum k)) (bhk b)) @
     [(''purpose'', JStr (spelling purposeEnum (purpose b)))] @
     entry ''budgetMin'' (map_option JNum (budgetMin b)) @
     entry ''budgetMax'' (map_option JNum (budgetMax b)) @
     [(''timeline'', JStr (spelling timelineEnum (timeline b))),
      (''source'', JStr (spelling sourceEnum (source b)))] @
     entry ''notes'' (map_option JStr (buyer_notes b)) @
     entry ''tags'' (map_option (JArr 0) (tags b)) @
     [(''status'', JStr (spelling statusEnum (status b))),
      (''ownerId'', JStr (ownerId b)),
      (''createdAt'', JStr (createdAt b)),
      (''updatedAt'', JStr (updatedAt b))]"

text \<open>The history entries of the transaction, one per valid row, in order.\<close>

fun history_entries :: "env \<Rightarrow> string \<Rightarrow> nat \<Rightarrow> nat \<Rightarrow> buyer list \<Rightarrow> history list" where
  "history_entries e uid u t [] = []"
| "history_entries e uid u t (r # rs) =
     \<lparr>history_id = uuidv4 e u, buyerId = buyer_id r, changedBy = uid,
      changedAt = new_Date e t, diff = FromTo [] (rowData r)\<rparr>
     # history_entries e uid (u + 1) (t + 1) rs"

record parse_error =
  error_type :: string
  error_code :: string

record upload =
  file_type :: string
  file_name :: string
  parse_data :: "csv_row list"
  parse_errors :: "parse_error list"

definition critical :: "parse_error \<Rightarrow> bool" where
  "critical er =
     (error_type er \<noteq> ''FieldMismatch'' \<or>
      (error_type er = ''FieldMismatch'' \<and> error_code er \<noteq> ''TooManyFields''))"

definition endsWith :: "string \<Rightarrow> string \<Rightarrow> bool" where
  "endsWith s suffix = (length suffix \<le> length s \<and> drop (length s - length suffix) s = suffix)"

datatype import_message = SuccessfullyImported nat | ImportedWithErrors nat nat

record import_response =
  res_success :: bool
  res_message :: import_message
  res_imported :: nat
  res_errors :: "import_error list"
  res_validCount :: nat
  res_totalCount :: nat
  res_hasMoreErrors :: bool
  res_status :: nat

text \<open>The variables as the loop finds them.\<close>

definition initial_state :: import_state where
  "initial_state =
     \<lparr>validRows = [], errors = [], seenPhones = {}, seenEmails = {},
      uuids = 0, dates = 0, stmts = 0\<rparr>"

text \<open>
  The transaction sends one insert for the buyers and one per history entry; it commits when
  the store executes them all and leaves the tables as they were otherwise (\<open>None\<close>: the
  handler throws). Without valid rows there is no transaction.
\<close>

definition commit_rows :: "env \<Rightarrow> string \<Rightarrow> import_state \<Rightarrow> db \<Rightarrow> db option" where
  "commit_rows e uid st d =
     (if 0 < length (validRows st) then
        if list_all (store_ok e) [stmts st ..< stmts st + 1 + length (validRows st)]
        then Some (d\<lparr>buyers := buyers d @ validRows st,
                     buyerHistory := buyerHistory d @
                       history_entries e uid (uuids st) (dates st) (validRows st)\<rparr>)
        else None
      else Some d)"

text \<open>The response object, from the row count and the loop's variables.\<close>

definition import_summary :: "nat \<Rightarrow> import_state \<Rightarrow> import_response" where
  "import_summary totalCount st =
     \<lparr>res_success = (length (errors st) = 0),
      res_message =
        (if length (errors st) = 0 then SuccessfullyImported (length (validRows st))
         else ImportedWithErrors (length (validRows st)) (length (errors st))),
      res_imported = length (validRows st),
      res_errors = take 100 (errors st),
      res_validCount = length (validRows st),
      res_totalCount = totalCount,
      res_hasMoreErrors = (100 < length (errors st)),
      res_status = (if length (errors st) = 0 then 200 else 207)\<rparr>"

definition POST_import :: "env \<Rightarrow> session \<Rightarrow> upload option \<Rightarrow> db
    \<Rightarrow> (error + import_response) \<times> db" where
  "POST_import e session file d =
     (case session_user_id session of
        None \<Rightarrow> (Inl Unauthorized, d)
      | Some uid \<Rightarrow>
     (case file of
        None \<Rightarrow> (Inl NoFileProvided, d)
      | Some f \<Rightarrow>
     if file_type f \<noteq> ''text/csv'' \<and> \<not> endsWith (file_name f) ''.csv''
     then (Inl NotCsv, d)
     else if 0 < length (parse_errors f) \<and> 0 < length (filter critical (parse_errors f))
     then (Inl CsvParsingFailed, d)
     else
       let rows = parse_data f in
       if length rows = 0 then (Inl CsvEmpty, d)
       else if 200 < length rows then (Inl CsvTooLarge, d)
       else
         let st = import_rows e uid d 0 rows initial_state in
         (case commit_rows e uid st d of
            None \<Rightarrow> (Inl ImportFailed, d)
          | Some d' \<Rightarrow> (Inr (import_summary (length rows) st), d'))))"

section \<open>Sample data for the worked cases\<close>

text \<open>
  An environment whose store executes every statement; its format checks are stand-ins for
  the library's, used only to run the cases below.
\<close>

definition sample_env :: env where
  "sample_env =
     \<lparr>is_email = (\<lambda>s. CHR ''@'' \<in> set s),
      is_uuid = (\<lambda>s. s \<noteq> []),
      is_datetime = (\<lambda>s. s \<noteq> []),
      Date_now = 0,
      new_Date = (\<lambda>k. ''2024-02-01T00:00:00.00'' @ replicate (Suc k) CHR ''Z''),
      uuidv4 = (\<lambda>k. ''id-'' @ replicate (Suc k) CHR ''x''),
      store_ok = (\<lambda>k. True),
      defaultRandom = (\<lambda>k. ''db-'' @ replicate (Suc k) CHR ''x''),
      defaultNow = (\<lambda>k. ''2024-02-01T00:00:00.000Z'')\<rparr>"

definition sample_request :: request where
  "sample_request = \<lparr>ip = None, x_forwarded_for = None\<rparr>"

definition sample_buyer :: buyer where
  "sample_buyer =
     \<lparr>buyer_id = ''b1'', fullName = ''John Doe'', email = None, phone = ''9876543210'',
      city = Chandigarh, propertyType = Apartment, bhk = Some Bhk_3, purpose = Buy,
      budgetMin = None, budgetMax = None, timeline = T_3_6m, source = Website,
      status = New, buyer_notes = None, tags = Some [], ownerId = ''u1'',
      createdAt = ''2024-01-01T00:00:00.000Z'', updatedAt = ''2024-01-01T00:00:00.000Z''\<rparr>"

definition other_buyer :: buyer where
  "other_buyer =
     \<lparr>buyer_id = ''b2'', fullName = ''Priya Sharma'', email = Some ''priya@example.com'',
      phone = ''9876543211'', city = Mohali, propertyType = Villa, bhk = Some Bhk_4,
      purpose = Buy, budgetMin = Some 8000000, budgetMax = Some 12000000,
      timeline = T_0_3m, source = Referral, status = Qualified, buyer_notes = None,
      tags = Some [''ready''], ownerId = ''u2'',
      createdAt = ''2024-01-02T00:00:00.000Z'', updatedAt = ''2024-01-03T00:00:00.000Z''\<rparr>"

definition created_entry :: "string \<Rightarrow> string \<Rightarrow> string \<Rightarrow> history" where
  "created_entry i b u =
     \<lparr>history_id = i, buyerId = b, changedBy = u, changedAt = ''2024-01-02T00:00:00.000Z'',
      diff = Changes [(''created'', JNull, JStr ''New buyer created'')]\<rparr>"

definition sample_db :: db where
  "sample_db =
     \<lparr>buyers = [sample_buyer, other_buyer],
      buyerHistory = [created_entry ''h1'' ''b1'' ''u1'', created_entry ''h2'' ''b2'' ''u2'',
                      created_entry ''h3'' ''b1'' ''u1'']\<rparr>"

definition empty_db :: db where
  "empty_db = \<lparr>buyers = [], buyerHistory = []\<rparr>"

text \<open>An update body that repeats every stored value of \<open>sample_buyer\<close>.\<close>

definition same_values :: update_input where
  "same_values =
     \<lparr>in_fullName = ''John Doe'', in_email = None, in_phone = ''9876543210'',
      in_city = Chandigarh, in_propertyType = Apartment, in_bhk = Some Bhk_3,
      in_purpose = Buy, in_budgetMin = None, in_budgetMax = None, in_timeline = T_3_6m,
      in_source = Website, in_status = Some New, in_notes = None, in_tags = Some [],
      in_id = ''b1'', in_updatedAt = ''2024-01-01T00:00:00.000Z''\<rparr>"

definition sample_row :: "string \<Rightarrow> string \<Rightarrow> csv_row" where
  "sample_row name ph =
     \<lparr>row_fullName = Some name, row_email = None, row_phone = Some ph,
      row_city = Some ''Mohali'', row_propertyType = Some ''Plot'', row_bhk = None,
      row_purpose = Some ''Buy'', row_budgetMin = None, row_budgetMax = None,
      row_timeline = Some ''0-3m'', row_source = Some ''Website'', row_status = None,
      row_notes = None, row_tags = None\<rparr>"

text \<open>The valid row the loop makes of \<open>sample_row name ph\<close> for owner \<open>u1\<close>.\<close>

definition imported_row :: "string \<Rightarrow> string \<Rightarrow> string \<Rightarrow> date \<Rightarrow> date \<Rightarrow> buyer" where
  "imported_row i name ph created updated =
     \<lparr>buyer_id = i, fullName = name, email = None, phone = ph, city = Mohali,
      propertyType = Plot, bhk = None, purpose = Buy, budgetMin = None, budgetMax = None,
      timeline = T_0_3m, source = Website, status = New, buyer_notes = Some [],
      tags = Some [], ownerId = ''u1'', createdAt = created, updatedAt = updated\<rparr>"

definition sample_upload :: "csv_row list \<Rightarrow> upload" where
  "sample_upload rows =
     \<lparr>file_type = ''text/csv'', file_name = ''leads.csv'', parse_data = rows,
      parse_errors = []\<rparr>"

definition no_filters :: search_params where
  "no_filters =
     \<lparr>p_query = None, p_city = None, p_propertyType = None, p_status = None,
      p_timeline = None, p_page = Some 1, p_limit = Some 10, p_sortBy = None,
      p_sortOrder = None\<rparr>"


section \<open>Well-formed listing queries\<close>



section \<open>The rate limit never rejects\<close>

lemma check_result:
  "check e req k = Some \<lparr>success = True,
      limit = (case k of CREATE_BUYER \<Rightarrow> 10 | UPDATE_BUYER \<Rightarrow> 20),
      remaining = (case k of CREATE_BUYER \<Rightarrow> 10 | UPDATE_BUYER \<Rightarrow> 20) - 1,
      reset = Date_now e + 60000\<rparr>"
  by (cases k) (simp_all add: check_def limits_def rateLimiter_def)

lemma PUT_not_429: "fst (PUT e s req i body d) \<noteq> Inl (TooManyRequests r)"
  by (simp add: PUT_def check_result Let_def split: option.split sum.split)

lemma POST_create_not_429: "fst (POST_create e s req body d) \<noteq> Inl (TooManyRequests r)"
  by (simp add: POST_create_def check_result Let_def split: option.split sum.split)

text \<open>
  Claim C10. For every request and either limit type, the rate-limit check returns success
  with remaining = limit - 1 (the configured limit, 10 for creation and 20 for update), and
  neither the update nor the create operation ever answers with the rate-limit-exceeded
  response, whatever the request, the session, the body and the store are.
\<close>

theorem rate_limit_branch_unreachable:
  "(\<exists>r. check e req k = Some r \<and> success r \<and> remaining r = limit r - 1 \<and>
        limit r = (case k of CREATE_BUYER \<Rightarrow> 10 | UPDATE_BUYER \<Rightarrow> 20)) \<and>
   fst (PUT e s req i body d) \<noteq> Inl (TooManyRequests r1) \<and>
   fst (POST_create e s req body' d) \<noteq> Inl (TooManyRequests r2)"
  by (simp add: check_result PUT_not_429 POST_create_not_429)

section \<open>Facts about the sample data\<close>

lemma sample_store_ok: "store_ok sample_env k"
  by (simp add: sample_env_def)

lemma same_values_valid: "updateBuyerSchema_issues sample_env same_values = []"
  by (simp add: updateBuyerSchema_issues_def field_issues_def
      sample_env_def same_values_def bhk_refinement_def budget_refinement_def budget_issues_def
      phone_regex_def is_digit_def)

lemma same_values_defaults: "with_defaults same_values = same_values"
  by (simp add: with_defaults_def same_values_def)

lemma select_b1: "select_buyer sample_db ''b1'' = Some sample_buyer"
  by (simp add: select_buyer_def sample_db_def sample_buyer_def)

section \<open>Update: the concurrency token\<close>

lemma PUT_stale_unchanged:
  assumes "select_buyer d i = Some cur" and "updatedAt cur \<noteq> in_updatedAt body"
  shows "snd (PUT e s req i body d) = d"
  using assms
  by (auto simp add: PUT_def check_result updateBuyerSchema_parse_def with_defaults_def Let_def
      split: option.split sum.split)

lemma PUT_stale_fails:
  assumes "select_buyer d i = Some cur" and "updatedAt cur \<noteq> in_updatedAt body"
  shows "\<exists>x. fst (PUT e s req i body d) = Inl x"
  using assms
  by (auto simp add: PUT_def check_result updateBuyerSchema_parse_def with_defaults_def Let_def
      split: option.split sum.split)

lemma PUT_stale_conflict:
  assumes "select_buyer d i = Some cur" and "updatedAt cur \<noteq> in_updatedAt body"
    and "session_user_id s = Some (ownerId cur)"
    and "updateBuyerSchema_issues e body = []" and "store_ok e 0"
  shows "fst (PUT e s req i body d) = Inl Conflict"
  using assms
  by (simp add: PUT_def check_result updateBuyerSchema_parse_def with_defaults_def)

text \<open>
  Claim C2. When the token of an update request differs from the stored \<open>updatedAt\<close> of the
  record, the operation fails and the whole store is as before: no field of the record has
  changed, \<open>updatedAt\<close> included, and no history entry is written. The failure is the
  conflict condition whenever the request reaches the comparison, that is when it comes
  from the record's owner, with a body the schema accepts, and the store answers the select.
\<close>

theorem stale_token_conflict:
  assumes "select_buyer d i = Some cur" and "updatedAt cur \<noteq> in_updatedAt body"
  shows "snd (PUT e s req i body d) = d \<and>
         (\<exists>x. fst (PUT e s req i body d) = Inl x) \<and>
         (session_user_id s = Some (ownerId cur) \<and> updateBuyerSchema_issues e body = [] \<and>
          store_ok e 0 \<longrightarrow> fst (PUT e s req i body d) = Inl Conflict)"
  using PUT_stale_unchanged [OF assms] PUT_stale_fails [OF assms] PUT_stale_conflict [OF assms]
  by blast

theorem stale_token_conflict_witness:
  "select_buyer sample_db ''b1'' = Some sample_buyer \<and>
   updatedAt sample_buyer \<noteq> ''2023-12-31T00:00:00.000Z'' \<and>
   PUT sample_env (User (Some ''u1'')) sample_request ''b1''
     (same_values\<lparr>in_updatedAt := ''2023-12-31T00:00:00.000Z''\<rparr>) sample_db
   = (Inl Conflict, sample_db)"
proof -
  let ?body = "same_values\<lparr>in_updatedAt := ''2023-12-31T00:00:00.000Z''\<rparr>"
  have stale: "updatedAt sample_buyer \<noteq> in_updatedAt ?body"
    by (simp add: sample_buyer_def)
  have owner: "session_user_id (User (Some ''u1'')) = Some (ownerId sample_buyer)"
    by (simp add: sample_buyer_def)
  have valid: "updateBuyerSchema_issues sample_env ?body = []"
    by (simp add: updateBuyerSchema_issues_def field_issues_def
      sample_env_def same_values_def bhk_refinement_def budget_refinement_def budget_issues_def
      phone_regex_def is_digit_def)
  from stale_token_conflict [OF select_b1 stale, of sample_env "User (Some ''u1'')" sample_request]
    owner valid sample_store_ok
  have "PUT sample_env (User (Some ''u1'')) sample_request ''b1'' ?body sample_db
          = (Inl Conflict, sample_db)"
    by (simp add: prod_eq_iff)
  with select_b1 stale show ?thesis by simp
qed

section \<open>Delete\<close>

text \<open>
  Claim C8. When the owner deletes a buyer and the store executes the two statements, the
  delete succeeds, no history entry referencing that buyer remains, the buyer is gone, and
  the history of every other buyer is untouched.
\<close>

theorem delete_cascades_history:
  assumes "session_user_id s = Some uid" and "select_buyer d i = Some cur"
    and "ownerId cur = uid" and "store_ok e 0" and "store_ok e 1"
  shows "fst (DELETE e s i d) = Inr () \<and>
         filter (\<lambda>h. buyerId h = i) (buyerHistory (snd (DELETE e s i d))) = [] \<and>
         select_buyer (snd (DELETE e s i d)) i = None \<and>
         filter (\<lambda>h. buyerId h \<noteq> i) (buyerHistory (snd (DELETE e s i d))) =
           filter (\<lambda>h. buyerId h \<noteq> i) (buyerHistory d)"
proof -
  from assms(2) have mem: "\<exists>b\<in>set (buyers d). buyer_id b = i"
    by (auto simp: select_buyer_def find_Some_iff)
  have res: "DELETE e s i d = (Inr (), delete_buyers (\<lambda>b. buyer_id b = i) d)"
    using assms by (simp add: DELETE_def)
  have hist: "buyerHistory (delete_buyers (\<lambda>b. buyer_id b = i) d) =
                filter (\<lambda>h. buyerId h \<noteq> i) (buyerHistory d)"
    using mem by (auto simp: delete_buyers_def list_ex_iff intro!: filter_cong)
  have gone: "select_buyer (delete_buyers (\<lambda>b. buyer_id b = i) d) i = None"
    by (simp add: delete_buyers_def select_buyer_def find_None_iff)
  show ?thesis
    by (simp add: res hist gone)
qed

theorem delete_cascades_history_witness:
  "session_user_id (User (Some ''u1'')) = Some ''u1'' \<and>
   select_buyer sample_db ''b1'' = Some sample_buyer \<and> ownerId sample_buyer = ''u1'' \<and>
   store_ok sample_env 0 \<and> store_ok sample_env 1 \<and>
   DELETE sample_env (User (Some ''u1'')) ''b1'' sample_db =
     (Inr (), \<lparr>buyers = [other_buyer], buyerHistory = [created_entry ''h2'' ''b2'' ''u2'']\<rparr>) \<and>
   filter (\<lambda>h. buyerId h = ''b1'')
     (buyerHistory (snd (DELETE sample_env (User (Some ''u1'')) ''b1'' sample_db))) = []"
proof -
  have u: "session_user_id (User (Some ''u1'')) = Some ''u1''" by simp
  have o: "ownerId sample_buyer = ''u1''" by (simp add: sample_buyer_def)
  have run: "DELETE sample_env (User (Some ''u1'')) ''b1'' sample_db =
     (Inr (), \<lparr>buyers = [other_buyer], buyerHistory = [created_entry ''h2'' ''b2'' ''u2'']\<rparr>)"
    by (simp add: DELETE_def select_b1 o sample_store_ok delete_buyers_def)
       (simp add: sample_db_def sample_buyer_def other_buyer_def created_entry_def)
  from delete_cascades_history [OF u select_b1 o sample_store_ok sample_store_ok]
  have "filter (\<lambda>h. buyerId h = ''b1'')
     (buyerHistory (snd (DELETE sample_env (User (Some ''u1'')) ''b1'' sample_db))) = []"
    by blast
  with u o run select_b1 sample_store_ok show ?thesis by simp
qed

section \<open>Update: the diff and the history entry\<close>

lemma map_of_entry_other: "key \<noteq> k \<Longrightarrow> map_of (entry key v) k = None"
  by (cases v) simp_all

lemma update_obj_tags:
  "js_get (update_obj a (with_defaults body)) ''tags'' =
     JArr a (case in_tags body of None \<Rightarrow> [] | Some ts \<Rightarrow> ts)"
  by (simp add: js_get_def update_obj_def with_defaults_def map_of_append map_add_def
      map_of_entry_other)

lemma update_obj_has_tags: "''tags'' \<in> set (Object_keys (update_obj a (with_defaults body)))"
  by (simp add: Object_keys_def update_obj_def with_defaults_def)

lemma buyer_obj_tags:
  "js_get (buyer_obj a b) ''tags'' = nullable (map_option (JArr a) (tags b))"
  by (simp add: js_get_def buyer_obj_def)

lemma tags_never_equal:
  "a \<noteq> c \<Longrightarrow> \<not> strict_eq (nullable (map_option (JArr a) ts)) (JArr c us)"
  by (cases ts) simp_all

lemma tags_in_diff:
  assumes "a \<noteq> c"
  shows "''tags'' \<in> fst ` set (compute_diff (buyer_obj a cur) (update_obj c (with_defaults body)))"
proof -
  have "(''tags'', js_get (buyer_obj a cur) ''tags'',
          js_get (update_obj c (with_defaults body)) ''tags'')
        \<in> set (compute_diff (buyer_obj a cur) (update_obj c (with_defaults body)))"
    using update_obj_has_tags [of c body] assms
    by (simp add: compute_diff_def update_obj_tags buyer_obj_tags tags_never_equal)
  then show ?thesis by force
qed

text \<open>Every update that succeeds appends one history entry, and \<open>tags\<close> is among its keys.\<close>

lemma PUT_success_appends_entry:
  assumes "fst (PUT e s req i body d) = Inr b"
  shows "\<exists>h cs. buyerHistory (snd (PUT e s req i body d)) = buyerHistory d @ [h] \<and>
                diff h = Changes cs \<and> ''tags'' \<in> fst ` set cs"
proof -
  have mem: "''tags'' \<in> fst ` set (compute_diff (buyer_obj (Suc 0) cur)
                                   (update_obj 0 (with_defaults body)))" for cur
    by (rule tags_in_diff) simp
  have ne: "compute_diff (buyer_obj (Suc 0) cur) (update_obj 0 (with_defaults body)) \<noteq> []"
    for cur
    using mem [of cur] by auto
  show ?thesis
    using assms mem
    by (auto simp add: PUT_def check_result updateBuyerSchema_parse_def Let_def ne
        split: option.splits sum.splits if_splits)
qed

lemma diff_same_values:
  "compute_diff (buyer_obj 1 sample_buyer) (update_obj 0 same_values) =
     [(''tags'', JArr 1 [], JArr 0 [])]"
  by (simp add: compute_diff_def buyer_obj_def update_obj_def sample_buyer_def same_values_def
      Object_keys_def js_get_def cityEnum_def propertyTypeEnum_def bhkEnum_def purposeEnum_def
      timelineEnum_def sourceEnum_def statusEnum_def)

lemma diff_status_only:
  "compute_diff (buyer_obj 1 sample_buyer) (update_obj 0 (same_values\<lparr>in_status := Some Qualified\<rparr>)) =
     [(''status'', JStr ''New'', JStr ''Qualified''), (''tags'', JArr 1 [], JArr 0 [])]"
  by (simp add: compute_diff_def buyer_obj_def update_obj_def sample_buyer_def same_values_def
      Object_keys_def js_get_def cityEnum_def propertyTypeEnum_def bhkEnum_def purposeEnum_def
      timelineEnum_def sourceEnum_def statusEnum_def)

lemma status_only_valid:
  "updateBuyerSchema_parse sample_env (same_values\<lparr>in_status := Some Qualified\<rparr>) =
     Inr (same_values\<lparr>in_status := Some Qualified\<rparr>)"
  by (simp add: updateBuyerSchema_parse_def updateBuyerSchema_issues_def field_issues_def
      sample_env_def same_values_def bhk_refinement_def budget_refinement_def budget_issues_def
      phone_regex_def is_digit_def with_defaults_def)

lemma same_values_parse: "updateBuyerSchema_parse sample_env same_values = Inr same_values"
  by (simp add: updateBuyerSchema_parse_def same_values_valid same_values_defaults)

text \<open>
  Claim C3, evaluated on the code. The owner sends, with the current token, a body that
  repeats every stored value: the update is persisted with a new \<open>updatedAt\<close>, and one history
  entry is appended all the same, its diff holding the key \<open>tags\<close> (two arrays are never
  \<open>===\<close>). When only \<open>status\<close> differs, the entry's diff has the two keys \<open>status\<close> and \<open>tags\<close>.
\<close>

theorem unchanged_update_writes_history:
  "PUT sample_env (User (Some ''u1'')) sample_request ''b1'' same_values sample_db =
     (Inr (sample_buyer\<lparr>updatedAt := ''2024-02-01T00:00:00.00Z''\<rparr>),
      \<lparr>buyers = [sample_buyer\<lparr>updatedAt := ''2024-02-01T00:00:00.00Z''\<rparr>, other_buyer],
       buyerHistory = buyerHistory sample_db @
         [\<lparr>history_id = ''db-xxx'', buyerId = ''b1'', changedBy = ''u1'',
           changedAt = ''2024-02-01T00:00:00.000Z'',
           diff = Changes [(''tags'', JArr 1 [], JArr 0 [])]\<rparr>]\<rparr>) \<and>
   PUT sample_env (User (Some ''u1'')) sample_request ''b1''
       (same_values\<lparr>in_status := Some Qualified\<rparr>) sample_db =
     (Inr (sample_buyer\<lparr>status := Qualified, updatedAt := ''2024-02-01T00:00:00.00Z''\<rparr>),
      \<lparr>buyers = [sample_buyer\<lparr>status := Qualified, updatedAt := ''2024-02-01T00:00:00.00Z''\<rparr>,
                 other_buyer],
       buyerHistory = buyerHistory sample_db @
         [\<lparr>history_id = ''db-xxx'', buyerId = ''b1'', changedBy = ''u1'',
           changedAt = ''2024-02-01T00:00:00.000Z'',
           diff = Changes [(''status'', JStr ''New'', JStr ''Qualified''),
                           (''tags'', JArr 1 [], JArr 0 [])]\<rparr>]\<rparr>)"
proof -
  have o: "ownerId sample_buyer = ''u1''" "updatedAt sample_buyer = ''2024-01-01T00:00:00.000Z''"
    by (simp_all add: sample_buyer_def)
  have t: "in_updatedAt same_values = ''2024-01-01T00:00:00.000Z''" "in_id same_values = ''b1''"
    by (simp_all add: same_values_def)
  have rows: "buyers sample_db = [sample_buyer, other_buyer]"
    by (simp add: sample_db_def)
  have ids: "buyer_id sample_buyer = ''b1''" "buyer_id other_buyer \<noteq> ''b1''"
    by (simp_all add: sample_buyer_def other_buyer_def)
  have gen: "defaultRandom sample_env 2 = ''db-xxx''"
    "defaultNow sample_env 2 = ''2024-02-01T00:00:00.000Z''"
    "new_Date sample_env 0 = ''2024-02-01T00:00:00.00Z''"
    by (simp_all add: sample_env_def numeral_2_eq_2)
  have set1: "set_values same_values sample_buyer = sample_buyer"
    by (simp add: set_values_def same_values_def sample_buyer_def)
  have set2: "set_values (same_values\<lparr>in_status := Some Qualified\<rparr>) sample_buyer
      = sample_buyer\<lparr>status := Qualified\<rparr>"
    by (simp add: set_values_def same_values_def sample_buyer_def)
  have first: "PUT sample_env (User (Some ''u1'')) sample_request ''b1'' same_values sample_db =
     (Inr (sample_buyer\<lparr>updatedAt := ''2024-02-01T00:00:00.00Z''\<rparr>),
      \<lparr>buyers = [sample_buyer\<lparr>updatedAt := ''2024-02-01T00:00:00.00Z''\<rparr>, other_buyer],
       buyerHistory = buyerHistory sample_db @
         [\<lparr>history_id = ''db-xxx'', buyerId = ''b1'', changedBy = ''u1'',
           changedAt = ''2024-02-01T00:00:00.000Z'',
           diff = Changes [(''tags'', JArr 1 [], JArr 0 [])]\<rparr>]\<rparr>)"
    unfolding PUT_def
    by (simp add: check_result same_values_parse select_b1 o t sample_store_ok
        diff_same_values rows ids gen set1 Let_def del: One_nat_def)
  have second: "PUT sample_env (User (Some ''u1'')) sample_request ''b1''
       (same_values\<lparr>in_status := Some Qualified\<rparr>) sample_db =
     (Inr (sample_buyer\<lparr>status := Qualified, updatedAt := ''2024-02-01T00:00:00.00Z''\<rparr>),
      \<lparr>buyers = [sample_buyer\<lparr>status := Qualified, updatedAt := ''2024-02-01T00:00:00.00Z''\<rparr>,
                 other_buyer],
       buyerHistory = buyerHistory sample_db @
         [\<lparr>history_id = ''db-xxx'', buyerId = ''b1'', changedBy = ''u1'',
           changedAt = ''2024-02-01T00:00:00.000Z'',
           diff = Changes [(''status'', JStr ''New'', JStr ''Qualified''),
                           (''tags'', JArr 1 [], JArr 0 [])]\<rparr>]\<rparr>)"
    unfolding PUT_def
    by (simp add: check_result status_only_valid select_b1 o t sample_store_ok
        diff_status_only rows ids gen set2 Let_def del: One_nat_def)
  from first second show ?thesis by (rule conjI)
qed

section \<open>Validation: the bedroom category\<close>







section \<open>Listing\<close>






lemma no_filters_parse:
  "searchSchema_parse (no_filters\<lparr>p_page := Some pg, p_limit := Some lm\<rparr>) =
     (if 0 < pg \<and> 0 < lm \<and> lm \<le> 50 then
     Inr \<lparr>q_query = None, q_city = None, q_propertyType = None, q_status = None,
          q_timeline = None, q_page = pg, q_limit = lm, q_sortBy = By_updatedAt,
          q_sortOrder = Desc\<rparr> else Inl (searchSchema_issues (no_filters\<lparr>p_page := Some pg, p_limit := Some lm\<rparr>)))"
  by (simp add: searchSchema_parse_def searchSchema_issues_def no_filters_def enum_issue_def
      enum_value_def)

lemma list_all_rows:
  "filter (list_where \<lparr>q_query = None, q_city = None, q_propertyType = None, q_status = None,
          q_timeline = None, q_page = pg, q_limit = lm, q_sortBy = f,
          q_sortOrder = ord\<rparr>) rows = rows"
  by (simp add: list_where_def)

lemma order_sample:
  "order_by By_updatedAt Desc (buyers sample_db) = [other_buyer, sample_buyer]"
  by (simp add: sample_db_def sample_buyer_def other_buyer_def)

lemma GET_list_sample:
  "0 < pg \<Longrightarrow> 0 < lm \<Longrightarrow> lm \<le> 50 \<Longrightarrow> u \<noteq> [] \<Longrightarrow>
   GET_list sample_env (User (Some u)) (no_filters\<lparr>p_page := Some pg, p_limit := Some lm\<rparr>) sample_db =
     Inr \<lparr>data = take (nat lm) (drop (nat ((pg - 1) * lm)) [other_buyer, sample_buyer]),
          pagination = \<lparr>pg_page = pg, pg_limit = lm, pg_total = 2,
                        pg_pages = \<lceil>(2 :: rat) / of_int lm\<rceil>\<rparr>\<rparr>"
  by (simp add: GET_list_def no_filters_parse sample_store_ok list_all_rows order_sample Let_def
        del: order_by.simps)
     (simp add: sample_db_def)


section \<open>Listing and the requesting user\<close>

lemma list_where_owner: "list_where v (b\<lparr>ownerId := w\<rparr>) = list_where v b"
  by (simp add: list_where_def matches_query_def split: option.split)

lemma GET_list_any_user:
  "session_user_id s1 = Some u1 \<Longrightarrow> session_user_id s2 = Some u2 \<Longrightarrow>
   GET_list e s1 p d = GET_list e s2 p d"
  by (simp add: GET_list_def)

lemma page_subset:
  assumes "x \<in> set (take n (drop k (order_by f ord (filter P rows))))"
  shows "x \<in> set rows \<and> P x"
proof -
  from assms have "x \<in> set (order_by f ord (filter P rows))"
    by (meson in_set_takeD in_set_dropD)
  then have "x \<in> set (filter P rows)"
    by (cases ord) simp_all
  then show ?thesis by simp
qed

lemma GET_list_counts_all_owners:
  assumes "GET_list e s p d = Inr r"
  shows "\<exists>v. searchSchema_parse p = Inr v \<and>
             pg_total (pagination r) = length (filter (list_where v) (buyers d)) \<and>
             set (data r) \<subseteq> {b \<in> set (buyers d). list_where v b}"
  using assms
  by (auto simp add: GET_list_def Let_def split: option.splits sum.splits if_splits
      dest: page_subset)

lemma GET_export_own_rows:
  assumes "GET_export e s q d = Inr rows" and "session_user_id s = Some u"
  shows "\<forall>b\<in>set rows. ownerId b = u"
proof (cases s)
  case Anonymous
  with assms show ?thesis by simp
next
  case (User x)
  with assms obtain uid where x: "x = Some uid" "uid = u"
    by (cases x) (auto split: if_splits)
  with assms User show ?thesis
    by (auto simp add: GET_export_def export_where_def split: if_splits)
qed

text \<open>
  Claim C9. The listing does not depend on who asks: two authenticated users sending the
  same query against the same store get the same answer. The filter predicate does not
  look at the owner of a row, the total counts the matching rows of every owner and each
  returned row is one of them; the export, by contrast, returns only rows owned by the
  requesting user.
\<close>

theorem listing_ignores_requesting_user:
  assumes "session_user_id s1 = Some u1" and "session_user_id s2 = Some u2"
  shows "GET_list e s1 p d = GET_list e s2 p d \<and>
         list_where v (b\<lparr>ownerId := w\<rparr>) = list_where v b \<and>
         (\<forall>r. GET_list e s1 p d = Inr r \<longrightarrow>
            (\<exists>v'. searchSchema_parse p = Inr v' \<and>
                  pg_total (pagination r) = length (filter (list_where v') (buyers d)) \<and>
                  set (data r) \<subseteq> {b \<in> set (buyers d). list_where v' b})) \<and>
         (\<forall>rows. GET_export e s1 q d = Inr rows \<longrightarrow> (\<forall>b\<in>set rows. ownerId b = u1))"
  using GET_list_any_user [OF assms] list_where_owner GET_list_counts_all_owners
    GET_export_own_rows [OF _ assms(1)]
  by blast

theorem listing_ignores_requesting_user_witness:
  "session_user_id (User (Some ''u1'')) = Some ''u1'' \<and>
   session_user_id (User (Some ''u2'')) = Some ''u2'' \<and>
   ownerId other_buyer = ''u2'' \<and>
   GET_list sample_env (User (Some ''u1'')) no_filters sample_db =
     Inr \<lparr>data = [other_buyer, sample_buyer],
          pagination = \<lparr>pg_page = 1, pg_limit = 10, pg_total = 2, pg_pages = 1\<rparr>\<rparr> \<and>
   GET_list sample_env (User (Some ''u2'')) no_filters sample_db =
     GET_list sample_env (User (Some ''u1'')) no_filters sample_db \<and>
   GET_export sample_env (User (Some ''u1'')) None sample_db = Inr [sample_buyer]"
proof -
  have u1: "session_user_id (User (Some ''u1'')) = Some ''u1''" by simp
  have u2: "session_user_id (User (Some ''u2'')) = Some ''u2''" by simp
  have o: "ownerId other_buyer = ''u2''" by (simp add: other_buyer_def)
  have nf: "no_filters\<lparr>p_page := Some 1, p_limit := Some 10\<rparr> = no_filters"
    by (simp add: no_filters_def)
  have c: "\<lceil>(1::rat) / 5\<rceil> = 1" by code_simp
  have run: "GET_list sample_env (User (Some ''u1'')) no_filters sample_db =
     Inr \<lparr>data = [other_buyer, sample_buyer],
          pagination = \<lparr>pg_page = 1, pg_limit = 10, pg_total = 2, pg_pages = 1\<rparr>\<rparr>"
    using GET_list_sample [of 1 10 "''u1''"] by (simp add: nf c)
  have ex: "GET_export sample_env (User (Some ''u1'')) None sample_db = Inr [sample_buyer]"
    by (simp add: GET_export_def sample_store_ok)
       (simp add: sample_db_def sample_buyer_def other_buyer_def export_where_def)
  from listing_ignores_requesting_user [OF u2 u1, of sample_env no_filters sample_db]
  have same: "GET_list sample_env (User (Some ''u2'')) no_filters sample_db =
     GET_list sample_env (User (Some ''u1'')) no_filters sample_db"
    by blast
  from u1 u2 o run same ex show ?thesis by simp
qed

section \<open>Import: the row loop\<close>

lemma import_row_seen:
  "seenPhones (import_row e uid d n r st) = seenPhones st \<and>
   seenEmails (import_row e uid d n r st) = seenEmails st"
  by (simp add: import_row_def push_error_def Let_def split: option.split)

lemma import_rows_seen:
  "seenPhones (import_rows e uid d i rows st) = seenPhones st \<and>
   seenEmails (import_rows e uid d i rows st) = seenEmails st"
  by (induction rows arbitrary: i st) (simp_all add: import_row_seen)

lemma import_row_count:
  "length (validRows (import_row e uid d n r st)) + length (errors (import_row e uid d n r st))
     = Suc (length (validRows st) + length (errors st))"
  by (simp add: import_row_def push_error_def Let_def split: option.split)

lemma import_rows_count:
  "length (validRows (import_rows e uid d i rows st)) +
   length (errors (import_rows e uid d i rows st))
     = length (validRows st) + length (errors st) + length rows"
  by (induction rows arbitrary: i st) (simp_all add: import_row_count)

lemma import_row_errors:
  "errors (import_row e uid d n r st) = errors st \<or>
   (\<exists>m. errors (import_row e uid d n r st) =
          errors st @ [\<lparr>row = n, message = m, row_data = r\<rparr>])"
  by (simp add: import_row_def push_error_def Let_def split: option.split)

lemma import_rows_errors:
  "\<exists>new. errors (import_rows e uid d i rows st) = errors st @ new \<and>
         (\<forall>er\<in>set new. \<exists>j<length rows. row er = i + j + 2 \<and> row_data er = rows ! j)"
proof (induction rows arbitrary: i st)
  case Nil
  then show ?case by simp
next
  case (Cons r rows)
  let ?st = "import_row e uid d (i + 2) r st"
  from Cons.IH [of "i + 1" ?st]
  obtain new where new: "errors (import_rows e uid d (i + 1) rows ?st) = errors ?st @ new"
    and rows: "\<forall>er\<in>set new. \<exists>j<length rows. row er = i + 1 + j + 2 \<and> row_data er = rows ! j"
    by blast
  from import_row_errors [of e uid d "i + 2" r st]
  obtain one where one: "errors ?st = errors st @ one"
    and first: "\<forall>er\<in>set one. row er = i + 2 \<and> row_data er = r"
    by auto
  have "\<forall>er\<in>set (one @ new). \<exists>j<length (r # rows).
           row er = i + j + 2 \<and> row_data er = (r # rows) ! j"
  proof
    fix er assume "er \<in> set (one @ new)"
    then consider "er \<in> set one" | "er \<in> set new" by auto
    then show "\<exists>j<length (r # rows). row er = i + j + 2 \<and> row_data er = (r # rows) ! j"
    proof cases
      case 1
      with first have "row er = i + 0 + 2 \<and> row_data er = (r # rows) ! 0" by simp
      then show ?thesis by blast
    next
      case 2
      with rows obtain j where "j < length rows" "row er = i + 1 + j + 2" "row_data er = rows ! j"
        by blast
      then have "Suc j < length (r # rows) \<and> row er = i + Suc j + 2 \<and>
                 row_data er = (r # rows) ! Suc j"
        by simp
      then show ?thesis by blast
    qed
  qed
  moreover have "errors (import_rows e uid d i (r # rows) st) = errors st @ (one @ new)"
    using new one by simp
  ultimately show ?case by blast
qed

lemma import_row_no_duplicate_message:
  assumes "seenPhones st = {}" and "seenEmails st = {}"
  shows "errors (import_row e uid d n r st) = errors st \<or>
   (\<exists>m. errors (import_row e uid d n r st) = errors st @ [\<lparr>row = n, message = m, row_data = r\<rparr>]
        \<and> m \<in> {SchemaError, AlreadyExists, StoreError})"
  using assms
  by (simp add: import_row_def push_error_def Let_def split: option.split)

text \<open>No row is ever refused as a duplicate within the batch: the two sets stay empty.\<close>

lemma import_rows_no_duplicate_message:
  assumes "seenPhones st = {}" and "seenEmails st = {}"
  shows "\<exists>new. errors (import_rows e uid d i rows st) = errors st @ new \<and>
         (\<forall>er\<in>set new. message er \<in> {SchemaError, AlreadyExists, StoreError})"
  using assms
proof (induction rows arbitrary: i st)
  case Nil
  then show ?case by simp
next
  case (Cons r rows)
  let ?st = "import_row e uid d (i + 2) r st"
  have seen: "seenPhones ?st = {}" "seenEmails ?st = {}"
    using Cons.prems by (simp_all add: import_row_seen)
  from Cons.IH [OF seen, of "i + 1"]
  obtain new where new: "errors (import_rows e uid d (i + 1) rows ?st) = errors ?st @ new"
    and ok: "\<forall>er\<in>set new. message er \<in> {SchemaError, AlreadyExists, StoreError}"
    by blast
  from import_row_no_duplicate_message [OF Cons.prems, of e uid d "i + 2" r]
  obtain one where one: "errors ?st = errors st @ one"
    and first: "\<forall>er\<in>set one. message er \<in> {SchemaError, AlreadyExists, StoreError}"
    by auto
  have "errors (import_rows e uid d i (r # rows) st) = errors st @ (one @ new)"
    using new one by simp
  moreover have "\<forall>er\<in>set (one @ new). message er \<in> {SchemaError, AlreadyExists, StoreError}"
    using ok first by auto
  ultimately show ?case by blast
qed

section \<open>Import: the result\<close>

lemma POST_import_completed:
  assumes "POST_import e s (Some f) d = (Inr r, d')"
  shows "\<exists>uid st.
           session_user_id s = Some uid \<and>
           st = import_rows e uid d 0 (parse_data f) initial_state \<and>
           0 < length (parse_data f) \<and> length (parse_data f) \<le> 200 \<and>
           commit_rows e uid st d = Some d' \<and>
           r = import_summary (length (parse_data f)) st"
  using assms
  by (auto simp add: POST_import_def Let_def split: option.splits if_splits)

lemma commit_rows_buyers:
  "commit_rows e uid st d = Some d' \<Longrightarrow> buyers d' = buyers d @ validRows st"
  by (auto simp add: commit_rows_def split: if_splits)

text \<open>
  Claim C4. For every completed import the result reports the total, valid and imported
  row counts (valid and imported agree, and that many buyers were added); its error list is
  the first 100 of the row errors that occurred, each carrying the number of its row
  counted from 1 with the header line as row 1 (data row \<open>j\<close>, from 0, is row \<open>j + 2\<close>); the
  flag is set exactly when more than 100 row errors occurred; the result is a full success
  (status 200) exactly when no row error occurred and a partial success (status 207)
  otherwise, whatever the number of imported rows.
\<close>

theorem import_result_shape:
  assumes "POST_import e s (Some f) d = (Inr r, d')"
  shows "\<exists>all_errors.
           res_totalCount r = length (parse_data f) \<and>
           res_validCount r = res_imported r \<and>
           length (buyers d') = length (buyers d) + res_imported r \<and>
           res_imported r + length all_errors = res_totalCount r \<and>
           (\<forall>er\<in>set all_errors.
              \<exists>j<length (parse_data f). row er = j + 2 \<and> row_data er = parse_data f ! j) \<and>
           res_errors r = take 100 all_errors \<and>
           length (res_errors r) \<le> 100 \<and>
           res_hasMoreErrors r = (100 < length all_errors) \<and>
           res_success r = (all_errors = []) \<and>
           res_status r = (if all_errors = [] then 200 else 207)"
proof -
  from POST_import_completed [OF assms]
  obtain uid st where st: "st = import_rows e uid d 0 (parse_data f) initial_state"
    and d': "commit_rows e uid st d = Some d'"
    and r: "r = import_summary (length (parse_data f)) st"
    by blast
  from import_rows_count [of e uid d 0 "parse_data f" initial_state] st
  have count: "length (validRows st) + length (errors st) = length (parse_data f)"
    by (simp add: initial_state_def)
  from import_rows_errors [of e uid d 0 "parse_data f" initial_state] st
  have rows: "\<forall>er\<in>set (errors st).
                \<exists>j<length (parse_data f). row er = j + 2 \<and> row_data er = parse_data f ! j"
    by (simp add: initial_state_def)
  show ?thesis
    using commit_rows_buyers [OF d'] r count rows
    by (intro exI [of _ "errors st"]) (simp add: import_summary_def)
qed

section \<open>Import: more than 200 rows\<close>

text \<open>
  Claim C5. An upload with more than 200 data rows is rejected as a whole: the operation
  fails, the store is as before (no row is persisted, the first 200 are not taken), and the
  failure is the too-large condition whenever the request is authenticated, the file is a
  CSV file and the parse reported no critical error.
\<close>

theorem oversize_import_rejected:
  assumes "200 < length (parse_data f)"
  shows "snd (POST_import e s (Some f) d) = d \<and>
         (\<exists>x. fst (POST_import e s (Some f) d) = Inl x \<and> status_code x \<in> {400, 401}) \<and>
         (session_user_id s \<noteq> None \<and>
          (file_type f = ''text/csv'' \<or> endsWith (file_name f) ''.csv'') \<and>
          filter critical (parse_errors f) = [] \<longrightarrow>
            fst (POST_import e s (Some f) d) = Inl CsvTooLarge)"
  using assms
  by (auto simp add: POST_import_def Let_def split: option.splits)

theorem oversize_import_rejected_witness:
  "200 < length (parse_data (sample_upload (replicate 201 (sample_row ''Asha Rao'' ''9876543210'')))) \<and>
   POST_import sample_env (User (Some ''u1''))
     (Some (sample_upload (replicate 201 (sample_row ''Asha Rao'' ''9876543210'')))) sample_db
   = (Inl CsvTooLarge, sample_db)"
proof -
  let ?f = "sample_upload (replicate 201 (sample_row ''Asha Rao'' ''9876543210''))"
  have big: "200 < length (parse_data ?f)"
    by (simp add: sample_upload_def)
  have csv: "file_type ?f = ''text/csv''" "filter critical (parse_errors ?f) = []"
    by (simp_all add: sample_upload_def)
  from oversize_import_rejected [OF big, of sample_env "User (Some ''u1'')" sample_db] csv
  have "POST_import sample_env (User (Some ''u1'')) (Some ?f) sample_db
          = (Inl CsvTooLarge, sample_db)"
    by (simp add: prod_eq_iff)
  with big show ?thesis by simp
qed

section \<open>Import: worked cases\<close>

lemma js_trim_unpadded:
  assumes "s \<noteq> []" and "\<not> is_space (hd s)" and "\<not> is_space (last s)"
  shows "js_trim s = s"
proof -
  have a: "dropWhile is_space s = s"
    using assms by (cases s) simp_all
  have "dropWhile is_space (rev s) = rev s"
    using assms by (cases "rev s") (simp_all add: hd_rev)
  with a show ?thesis by (simp add: js_trim_def)
qed

lemma sample_strings:
  "js_trim ''Asha Rao'' = ''Asha Rao''" "js_trim ''Vikram Rao'' = ''Vikram Rao''"
  "js_trim ''Meena Iyer'' = ''Meena Iyer''" "js_trim ''Kiran Bedi'' = ''Kiran Bedi''"
  "js_trim ''9876543210'' = ''9876543210''" "js_trim ''9876543211'' = ''9876543211''"
  "js_trim ''9876543212'' = ''9876543212''" "js_trim ''123'' = ''123''"
  "js_trim ''Mohali'' = ''Mohali''" "js_trim ''Plot'' = ''Plot''" "js_trim ''Buy'' = ''Buy''"
  "js_trim ''0-3m'' = ''0-3m''" "js_trim ''Website'' = ''Website''"
  by (rule js_trim_unpadded; simp add: is_space_def)+

lemma sample_phones:
  "phone_regex ''9876543210''" "phone_regex ''9876543211''" "phone_regex ''9876543212''"
  "\<not> phone_regex ''123''"
  by (simp_all add: phone_regex_def is_digit_def)

lemma transform_sample:
  assumes "js_trim name = name" and "js_trim ph = ph"
  shows "transform_row (sample_row name ph) =
     \<lparr>t_fullName = name, t_email = [], t_phone = ph, t_city = ''Mohali'',
      t_propertyType = ''Plot'', t_bhk = None, t_purpose = ''Buy'', t_budgetMin = None,
      t_budgetMax = None, t_timeline = ''0-3m'', t_source = ''Website'', t_status = ''New'',
      t_notes = [], t_tags = []\<rparr>"
  using assms
  by (simp add: transform_row_def sample_row_def trimmed_or_empty_def trimmed_if_truthy_def
      number_if_truthy_def sample_strings)

lemma parse_sample:
  "csvBuyerSchema_parse sample_env
     \<lparr>t_fullName = name, t_email = [], t_phone = ph, t_city = ''Mohali'',
      t_propertyType = ''Plot'', t_bhk = None, t_purpose = ''Buy'', t_budgetMin = None,
      t_budgetMax = None, t_timeline = ''0-3m'', t_source = ''Website'', t_status = ''New'',
      t_notes = [], t_tags = []\<rparr> =
   (if 2 \<le> length name \<and> length name \<le> 80 \<and> phone_regex ph then
     Some \<lparr>in_fullName = name, in_email = None, in_phone = ph,
      in_city = Mohali, in_propertyType = Plot, in_bhk = None,
      in_purpose = Buy, in_budgetMin = None, in_budgetMax = None, in_timeline = T_0_3m,
      in_source = Website, in_status = Some New, in_notes = Some [], in_tags = Some []\<rparr>
    else None)"
  by (simp add: csvBuyerSchema_parse_def cityEnum_def propertyTypeEnum_def
      csv_bhk_def purposeEnum_def timelineEnum_def sourceEnum_def statusEnum_def sample_env_def
      bhk_refinement_def budget_refinement_def)

lemma import_row_sample:
  assumes "js_trim name = name" and "js_trim ph = ph"
    and "seenPhones st = {}" and "seenEmails st = {}"
  shows "import_row sample_env ''u1'' empty_db n (sample_row name ph) st =
     (if 2 \<le> length name \<and> length name \<le> 80 \<and> phone_regex ph then
       st\<lparr>validRows := validRows st @
           [imported_row (uuidv4 sample_env (uuids st)) name ph
              (new_Date sample_env (dates st)) (new_Date sample_env (dates st + 1))],
         uuids := uuids st + 1, dates := dates st + 2, stmts := stmts st + 1\<rparr>
      else push_error n SchemaError (sample_row name ph) st)"
  using assms(3,4)
  by (simp add: import_row_def Let_def transform_sample [OF assms(1,2)] parse_sample
      existing_buyer_def empty_db_def sample_store_ok set_values_def default_row_def
      imported_row_def)

lemma two_rows_same_phone:
  "import_rows sample_env ''u1'' empty_db 0
     [sample_row ''Asha Rao'' ''9876543210'', sample_row ''Vikram Rao'' ''9876543210'']
     initial_state =
   \<lparr>validRows =
      [imported_row ''id-x'' ''Asha Rao'' ''9876543210''
         ''2024-02-01T00:00:00.00Z'' ''2024-02-01T00:00:00.00ZZ'',
       imported_row ''id-xx'' ''Vikram Rao'' ''9876543210''
         ''2024-02-01T00:00:00.00ZZZ'' ''2024-02-01T00:00:00.00ZZZZ''],
    errors = [], seenPhones = {}, seenEmails = {}, uuids = 2, dates = 4, stmts = 2\<rparr>"
  by (simp add: initial_state_def import_row_sample sample_strings sample_phones)
     (simp add: sample_env_def eval_nat_numeral)

lemma sample_upload_accepted:
  "POST_import sample_env (User (Some ''u1'')) (Some (sample_upload rows)) d =
     (if length rows = 0 then (Inl CsvEmpty, d)
      else if 200 < length rows then (Inl CsvTooLarge, d)
      else (case commit_rows sample_env ''u1''
                   (import_rows sample_env ''u1'' d 0 rows initial_state) d of
              None \<Rightarrow> (Inl ImportFailed, d)
            | Some d' \<Rightarrow>
                (Inr (import_summary (length rows)
                        (import_rows sample_env ''u1'' d 0 rows initial_state)), d')))"
  by (simp add: POST_import_def sample_upload_def Let_def)

lemma sample_commit:
  "commit_rows sample_env uid st d =
     (if 0 < length (validRows st)
      then Some (d\<lparr>buyers := buyers d @ validRows st,
                   buyerHistory := buyerHistory d @
                     history_entries sample_env uid (uuids st) (dates st) (validRows st)\<rparr>)
      else Some d)"
  by (simp add: commit_rows_def sample_store_ok list_all_iff)

text \<open>
  Claim C1, evaluated on the code. A batch of two valid rows with the same phone number is
  imported in full: no row failure is recorded, the result is a full success, and both rows
  are inserted. (The loop never adds to the sets of seen phones and emails.)
\<close>

theorem duplicate_phone_rows_both_imported:
  "fst (POST_import sample_env (User (Some ''u1''))
          (Some (sample_upload [sample_row ''Asha Rao'' ''9876543210'',
                                sample_row ''Vikram Rao'' ''9876543210'']))
          empty_db) =
     Inr \<lparr>res_success = True, res_message = SuccessfullyImported 2, res_imported = 2,
          res_errors = [], res_validCount = 2, res_totalCount = 2,
          res_hasMoreErrors = False, res_status = 200\<rparr> \<and>
   buyers (snd (POST_import sample_env (User (Some ''u1''))
          (Some (sample_upload [sample_row ''Asha Rao'' ''9876543210'',
                                sample_row ''Vikram Rao'' ''9876543210'']))
          empty_db)) =
     [imported_row ''id-x'' ''Asha Rao'' ''9876543210''
        ''2024-02-01T00:00:00.00Z'' ''2024-02-01T00:00:00.00ZZ'',
      imported_row ''id-xx'' ''Vikram Rao'' ''9876543210''
        ''2024-02-01T00:00:00.00ZZZ'' ''2024-02-01T00:00:00.00ZZZZ'']"
  by (simp add: sample_upload_accepted two_rows_same_phone sample_commit import_summary_def
        del: import_rows.simps)
     (simp add: empty_db_def)

lemma four_rows:
  "import_rows sample_env ''u1'' empty_db 0
     [sample_row ''Asha Rao'' ''9876543210'', sample_row ''Vikram Rao'' ''9876543211'',
      sample_row ''Meena Iyer'' ''9876543212'', sample_row ''Kiran Bedi'' ''123'']
     initial_state =
   \<lparr>validRows =
      [imported_row ''id-x'' ''Asha Rao'' ''9876543210''
         ''2024-02-01T00:00:00.00Z'' ''2024-02-01T00:00:00.00ZZ'',
       imported_row ''id-xx'' ''Vikram Rao'' ''9876543211''
         ''2024-02-01T00:00:00.00ZZZ'' ''2024-02-01T00:00:00.00ZZZZ'',
       imported_row ''id-xxx'' ''Meena Iyer'' ''9876543212''
         ''2024-02-01T00:00:00.00ZZZZZ'' ''2024-02-01T00:00:00.00ZZZZZZ''],
    errors = [\<lparr>row = 5, message = SchemaError,
               row_data = sample_row ''Kiran Bedi'' ''123''\<rparr>],
    seenPhones = {}, seenEmails = {}, uuids = 3, dates = 6, stmts = 3\<rparr>"
  by (simp add: initial_state_def import_row_sample sample_strings sample_phones push_error_def)
     (simp add: sample_env_def eval_nat_numeral)

theorem import_result_shape_witness:
  "fst (POST_import sample_env (User (Some ''u1''))
      (Some (sample_upload
         [sample_row ''Asha Rao'' ''9876543210'', sample_row ''Vikram Rao'' ''9876543211'',
          sample_row ''Meena Iyer'' ''9876543212'', sample_row ''Kiran Bedi'' ''123'']))
      empty_db) =
     Inr \<lparr>res_success = False, res_message = ImportedWithErrors 3 1, res_imported = 3,
          res_errors = [\<lparr>row = 5, message = SchemaError,
                         row_data = sample_row ''Kiran Bedi'' ''123''\<rparr>],
          res_validCount = 3, res_totalCount = 4, res_hasMoreErrors = False,
          res_status = 207\<rparr> \<and>
   length (buyers (snd (POST_import sample_env (User (Some ''u1''))
      (Some (sample_upload
         [sample_row ''Asha Rao'' ''9876543210'', sample_row ''Vikram Rao'' ''9876543211'',
          sample_row ''Meena Iyer'' ''9876543212'', sample_row ''Kiran Bedi'' ''123'']))
      empty_db))) = 3"
proof -
  let ?f = "sample_upload
         [sample_row ''Asha Rao'' ''9876543210'', sample_row ''Vikram Rao'' ''9876543211'',
          sample_row ''Meena Iyer'' ''9876543212'', sample_row ''Kiran Bedi'' ''123'']"
  let ?run = "POST_import sample_env (User (Some ''u1'')) (Some ?f) empty_db"
  let ?r = "\<lparr>res_success = False, res_message = ImportedWithErrors 3 1, res_imported = 3,
          res_errors = [\<lparr>row = 5, message = SchemaError,
                         row_data = sample_row ''Kiran Bedi'' ''123''\<rparr>],
          res_validCount = 3, res_totalCount = 4, res_hasMoreErrors = False,
          res_status = 207\<rparr>"
  have resp: "fst ?run = Inr ?r"
    by (simp add: sample_upload_accepted four_rows sample_commit import_summary_def
        del: import_rows.simps)
  then have run: "?run = (Inr ?r, snd ?run)"
    by (simp add: prod_eq_iff)
  from import_result_shape [OF run]
  have "length (buyers (snd ?run)) = length (buyers empty_db) + res_imported ?r"
    by blast
  then have "length (buyers (snd ?run)) = 3"
    by (simp add: empty_db_def)
  with resp show ?thesis by simp
qed

end
